theory Spec2Isabelle
  imports Complex_Main "HOL-Library.AList"
begin

section \<open>AREIA: artificial redshift pipeline and background samplers\<close>

text \<open>
  A shallow embedding of \<^verbatim>\<open>areia.py\<close> and \<^verbatim>\<open>background.py\<close>.

  Conventions of the embedding.
  \<^item> A 2-D numpy array is a list of rows together with its column count, so that an
    array with no rows still has a second dimension, as in numpy.
  \<^item> Pixel values and all other floats are real numbers. Where the Python divides a
    float by zero, numpy raises nothing and goes on with \<^verbatim>\<open>nan\<close> or \<^verbatim>\<open>inf\<close>; the
    real-valued model cannot hold these values and stops with the outcome \<open>NonFinite\<close>.
    A run of the model that returns is therefore a run of the Python without an
    exception and without such a division, all of whose values are finite.
  \<^item> Python exceptions are values of the type \<open>failure\<close>; a function that can raise
    returns \<open>failure + 'a\<close>.
  \<^item> Third-party capabilities (luminosity distance, segmentation, convolution,
    nearest-neighbour zoom, random numbers, photometry) are parameters.
\<close>

subsection \<open>Failures\<close>

datatype failure =
    IndexError string
  | ValueError string
  | NameError string
  | TypeError string
  | AttributeError string
  | OSError string
  | NonFinite string

definition bind_result :: "failure + 'a \<Rightarrow> ('a \<Rightarrow> failure + 'b) \<Rightarrow> failure + 'b" where
  "bind_result m f = (case m of Inl e \<Rightarrow> Inl e | Inr x \<Rightarrow> f x)"

definition attr :: "string \<Rightarrow> 'a option \<Rightarrow> failure + 'a" where
  \<comment> \<open>Reading an attribute of \<^verbatim>\<open>self\<close> that no stage has set yet.\<close>
  "attr name v = (case v of None \<Rightarrow> Inl (AttributeError name) | Some x \<Rightarrow> Inr x)"

subsection \<open>Python numbers\<close>

definition py_int :: "real \<Rightarrow> int" where
  \<comment> \<open>\<^verbatim>\<open>int(x)\<close> on a float: truncation towards zero.\<close>
  "py_int x = (if 0 \<le> x then \<lfloor>x\<rfloor> else - \<lfloor>- x\<rfloor>)"

subsection \<open>Arrays\<close>

datatype 'a ndarray = NDArray (ncols: nat) (rows: "'a list list")

definition shape0 :: "'a ndarray \<Rightarrow> nat" where
  "shape0 a = length (rows a)"

definition shape1 :: "'a ndarray \<Rightarrow> nat" where
  "shape1 a = ncols a"

definition shape :: "'a ndarray \<Rightarrow> nat \<times> nat" where
  "shape a = (shape0 a, shape1 a)"

definition well_shaped :: "'a ndarray \<Rightarrow> bool" where
  \<comment> \<open>Every row has the array's column count.\<close>
  "well_shaped a = list_all (\<lambda>r. length r = ncols a) (rows a)"

definition full :: "nat \<times> nat \<Rightarrow> 'a \<Rightarrow> 'a ndarray" where
  "full sh v = NDArray (snd sh) (replicate (fst sh) (replicate (snd sh) v))"

definition map_array :: "('a \<Rightarrow> 'b) \<Rightarrow> 'a ndarray \<Rightarrow> 'b ndarray" where
  "map_array f a = NDArray (ncols a) (map (map f) (rows a))"

definition array_sum :: "real ndarray \<Rightarrow> real" where
  \<comment> \<open>\<^verbatim>\<open>a.sum()\<close>\<close>
  "array_sum a = sum_list (map sum_list (rows a))"

definition slice_start :: "nat \<Rightarrow> int \<Rightarrow> nat" where
  \<comment> \<open>A slice bound on an axis of length \<open>n\<close>: a negative bound counts from the end,
      and the result is clipped to \<open>0..n\<close>.\<close>
  "slice_start n i = (if i < 0 then nat (max 0 (i + int n)) else min n (nat i))"

definition py_slice :: "int \<Rightarrow> int \<Rightarrow> 'a list \<Rightarrow> 'a list" where
  \<comment> \<open>\<^verbatim>\<open>xs[lo:hi]\<close>\<close>
  "py_slice lo hi xs =
     (let n = length xs; l = slice_start n lo; h = slice_start n hi
      in take (h - l) (drop l xs))"

definition slice_len :: "nat \<Rightarrow> int \<Rightarrow> int \<Rightarrow> nat" where
  "slice_len n lo hi = slice_start n hi - slice_start n lo"

definition slice2 :: "int \<Rightarrow> int \<Rightarrow> int \<Rightarrow> int \<Rightarrow> 'a ndarray \<Rightarrow> 'a ndarray" where
  \<comment> \<open>\<^verbatim>\<open>a[r0:r1, c0:c1]\<close>\<close>
  "slice2 r0 r1 c0 c1 a =
     NDArray (slice_len (ncols a) c0 c1) (map (py_slice c0 c1) (py_slice r0 r1 (rows a)))"

subsection \<open>Configuration, frames and pipeline state\<close>

record Config =
  cosmo :: "real \<Rightarrow> real"
    \<comment> \<open>\<^verbatim>\<open>cosmo.luminosity_distance(z).value\<close> of the configured cosmology\<close>
  add_background_on :: bool
  rebinning :: bool
  convolve_with_psf :: bool
  make_cutout :: bool
  dimming :: bool
  shot_noise :: bool
  size_correction :: bool
  evo :: bool
  evo_alpha :: real
  output_size :: int
  bg_centered :: bool
  fixed_grid :: bool

record ObservationFrame =
  pixelscale :: real
  redshift :: real
  exptime :: real

record ArtificialRedshift =
  image_in :: "real ndarray"
  psf :: "real ndarray"
  background :: "real ndarray option"
  initial_frame :: ObservationFrame
  target_frame :: ObservationFrame
  MAG :: real
  bg_position :: "(int \<times> int) option"
  config :: Config
  final :: "real ndarray"
  cutout :: "real ndarray option"
  masked :: "real ndarray option"
  scale_factor :: "real option"
  size_correction_factor :: "real option"
  flux :: "real option"
  rebinned :: "real ndarray option"
  dimming_factor :: "real option"
  dimmed :: "real ndarray option"
  mag_correction :: "real option"
  evo_factor :: "real option"
  with_evolution :: "real ndarray option"
  convolved :: "real ndarray option"
  shot_noise_field :: "real ndarray option"
  with_shot_noise :: "real ndarray option"
  with_background :: "real ndarray option"
  final_crop :: "real ndarray option"

subsection \<open>Third-party capabilities\<close>

text \<open>
  What the pipeline calls but does not define: the segmentation and background
  statistics of \<^verbatim>\<open>galclean\<close>, \<^verbatim>\<open>scipy.ndimage.zoom\<close> (order 0, with prefilter),
  \<^verbatim>\<open>astropy.convolution.convolve\<close>, and numpy's random numbers. Each may raise.
  The fields \<open>randn_draw\<close> and \<open>normal_draw\<close> give the standard normal draw of each
  cell, \<open>randint_x\<close> and \<open>randint_y\<close> are the raw draws behind the two calls of
  \<^verbatim>\<open>np.random.randint\<close>.
\<close>

record externals =
  FlatLambdaCDM :: "real \<Rightarrow> real \<Rightarrow> real \<Rightarrow> real \<Rightarrow> real"
    \<comment> \<open>\<^verbatim>\<open>FlatLambdaCDM(H0, Om0, Tcmb0).luminosity_distance(z).value\<close>\<close>
  central_segmentation_map :: "real ndarray \<Rightarrow> failure + bool ndarray"
  measure_background :: "real ndarray \<Rightarrow> nat \<Rightarrow> real ndarray \<Rightarrow> failure + (real \<times> real \<times> real)"
  zoom :: "real ndarray \<Rightarrow> real \<Rightarrow> failure + real ndarray"
  convolve :: "real ndarray \<Rightarrow> real ndarray \<Rightarrow> failure + real ndarray"
  randn_draw :: "nat \<Rightarrow> nat \<Rightarrow> real"
  normal_draw :: "nat \<Rightarrow> nat \<Rightarrow> real"
  randint_x :: int
  randint_y :: int

definition randint :: "int \<Rightarrow> int \<Rightarrow> int \<Rightarrow> failure + int" where
  \<comment> \<open>\<^verbatim>\<open>np.random.randint(low, high)\<close>: a value of \<open>low..<high\<close>, chosen by the raw draw;
      numpy raises ValueError when the range is empty.\<close>
  "randint low high raw =
     (if low < high then Inr (low + raw mod (high - low)) else Inl (ValueError ''low >= high''))"

definition py_pow :: "real \<Rightarrow> real \<Rightarrow> failure + real" where
  \<comment> \<open>\<^verbatim>\<open>x ** a\<close> for floats. With a base that is not positive Python raises
      ZeroDivisionError or returns a complex number, and numpy gives \<^verbatim>\<open>inf\<close> or
      \<^verbatim>\<open>nan\<close>: none is a real number.\<close>
  "py_pow x a = (if 0 < x then Inr (x powr a) else Inl (NonFinite ''power of a base that is not positive''))"

definition float_div :: "string \<Rightarrow> real \<Rightarrow> real \<Rightarrow> failure + real" where
  \<comment> \<open>Float division; by zero numpy gives \<^verbatim>\<open>nan\<close> or \<^verbatim>\<open>inf\<close> with a warning only.\<close>
  "float_div site x y = (if y = 0 then Inl (NonFinite site) else Inr (x / y))"

definition array_div :: "string \<Rightarrow> real ndarray \<Rightarrow> real \<Rightarrow> failure + real ndarray" where
  \<comment> \<open>\<^verbatim>\<open>a / y\<close> for an array and a scalar.\<close>
  "array_div site a y = (if y = 0 then Inl (NonFinite site) else Inr (map_array (\<lambda>v. v / y) a))"

subsection \<open>Linear interpolation on a regular grid\<close>

text \<open>
  \<^verbatim>\<open>scipy.interpolate.interpn\<close> with \<^verbatim>\<open>method='linear'\<close>, \<^verbatim>\<open>bounds_error=False\<close> and a fill
  value, in two dimensions, as the regular-grid interpolator of scipy computes it:
  on each axis the index of the lower edge is \<^verbatim>\<open>searchsorted(grid, x) - 1\<close> clipped to
  \<open>0 .. size - 2\<close>, the weight is the distance to that edge over the width of the cell,
  and a point below the first or above the last grid value is out of bounds and gets
  the fill value. An axis of one point is treated apart: the index is \<open>- 1\<close> and the
  weight is 0, so that both edges \<open>- 1\<close> and \<open>0\<close>, as indices into the values, are the
  only point of the axis. An axis without points fails at \<^verbatim>\<open>grid[0]\<close>.
\<close>

definition searchsorted :: "real list \<Rightarrow> real \<Rightarrow> nat" where
  \<comment> \<open>\<^verbatim>\<open>np.searchsorted(grid, x)\<close>, side left, on an ascending grid.\<close>
  "searchsorted grid x = length (takeWhile (\<lambda>g. g < x) grid)"

definition py_nth :: "'a list \<Rightarrow> int \<Rightarrow> 'a" where
  \<comment> \<open>\<^verbatim>\<open>xs[i]\<close> for an index in range: a negative index counts from the end.\<close>
  "py_nth xs i = xs ! nat (if i < 0 then i + int (length xs) else i)"

definition find_index :: "real list \<Rightarrow> real \<Rightarrow> int" where
  "find_index grid x =
     (if length grid = 1 then - 1
      else let i = int (searchsorted grid x) - 1;
               i = (if i < 0 then 0 else i);
               i = (if i > int (length grid) - 2 then int (length grid) - 2 else i)
           in i)"

definition norm_distance :: "real list \<Rightarrow> real \<Rightarrow> real" where
  "norm_distance grid x =
     (if length grid = 1 then 0
      else let i = find_index grid x
           in (x - py_nth grid i) / (py_nth grid (i + 1) - py_nth grid i))"

definition out_of_bounds :: "real list \<Rightarrow> real \<Rightarrow> bool" where
  "out_of_bounds grid x = (x < grid ! 0 \<or> x > last grid)"

definition evaluate_linear :: "real list \<Rightarrow> real list \<Rightarrow> real ndarray \<Rightarrow> real \<times> real \<Rightarrow> real" where
  \<comment> \<open>The sum over the four corners of the cell, each weighted by the product of its
      weights on the two axes.\<close>
  "evaluate_linear g0 g1 vals p =
     (let i = find_index g0 (fst p); y0 = norm_distance g0 (fst p);
          j = find_index g1 (snd p); y1 = norm_distance g1 (snd p)
      in sum_list (map (\<lambda>(e0, e1).
                     py_nth (py_nth (rows vals) e0) e1
                       * (if e0 = i then 1 - y0 else y0) * (if e1 = j then 1 - y1 else y1))
                   [(i, j), (i, j + 1), (i + 1, j), (i + 1, j + 1)]))"

definition interpn :: "real list \<Rightarrow> real list \<Rightarrow> real ndarray \<Rightarrow> (real \<times> real) ndarray \<Rightarrow> real
                        \<Rightarrow> failure + real ndarray" where
  "interpn g0 g1 vals xi fill_value =
     (if length g0 = 0 \<or> length g1 = 0 then Inl (IndexError ''index 0 is out of bounds'')
      else Inr (map_array (\<lambda>p. if out_of_bounds g0 (fst p) \<or> out_of_bounds g1 (snd p)
                                 then fill_value else evaluate_linear g0 g1 vals p) xi))"

subsection \<open>The resampler on a fixed grid\<close>

definition in_coords :: "nat \<Rightarrow> real list" where
  \<comment> \<open>\<^verbatim>\<open>np.arange(s) - (s - 1) / 2\<close>\<close>
  "in_coords s = map (\<lambda>k. real k - (real s - 1) / 2) [0..<s]"

definition out_coords :: "nat \<Rightarrow> nat \<Rightarrow> real \<Rightarrow> (real \<times> real) ndarray" where
  \<comment> \<open>The grid of \<^verbatim>\<open>meshgrid(*in_coords, indexing='ij')\<close> with both axes divided by the
      scale: cell \<open>(i, j)\<close> holds \<open>(in_coords[0][i] / scale, in_coords[1][j] / scale)\<close>. The two
      transpositions of the source cancel.\<close>
  "out_coords n0 n1 scale =
     NDArray n1 (map (\<lambda>x. map (\<lambda>y. (x / scale, y / scale)) (in_coords n1)) (in_coords n0))"

definition zoom_contents :: "real ndarray \<Rightarrow> real \<Rightarrow> bool \<Rightarrow> real \<Rightarrow> failure + real ndarray" where
  \<comment> \<open>With the defaults \<^verbatim>\<open>image_axes=[0, 1]\<close> and \<^verbatim>\<open>method='linear'\<close>, the only ones in use.\<close>
  "zoom_contents img scale conserve_flux fill_value =
     (if scale = 0 then Inl (NonFinite ''out_coords /= scale'')
      else bind_result
             (interpn (in_coords (shape0 img)) (in_coords (shape1 img)) img
                      (out_coords (shape0 img) (shape1 img) scale) fill_value)
             (\<lambda>output. if conserve_flux then Inr (map_array (\<lambda>v. v / scale\<^sup>2) output)
                        else Inr output))"

subsection \<open>Geometric rebinning\<close>

definition size_correction_of :: "real \<Rightarrow> failure + real" where
  \<comment> \<open>The local function \<^verbatim>\<open>_size_correction\<close>.\<close>
  "size_correction_of z = py_pow (1 + z) (- 0.97)"

definition rebinning_scale :: "ArtificialRedshift \<Rightarrow> failure + real" where
  \<comment> \<open>The scale factor of the branch \<^verbatim>\<open>if self.config.rebinning\<close>. With a denominator
      of zero (a target at luminosity distance zero) the Python gets the scale factor
      \<^verbatim>\<open>inf\<close> and goes on; the model stops with \<open>NonFinite\<close>.\<close>
  "rebinning_scale st =
     (let initial_distance = cosmo (config st) (redshift (initial_frame st));
          target_distance = cosmo (config st) (redshift (target_frame st))
      in float_div ''scale_factor''
           (initial_distance * (1 + redshift (target_frame st))\<^sup>2 * pixelscale (initial_frame st))
           (target_distance * (1 + redshift (initial_frame st))\<^sup>2 * pixelscale (target_frame st)))"

definition geometric_rebinning :: "externals \<Rightarrow> ArtificialRedshift \<Rightarrow> failure + ArtificialRedshift" where
  "geometric_rebinning ext st =
     (let fl = array_sum (final st) in
      bind_result (array_div ''final / flux'' (final st) fl) (\<lambda>normalised.
      bind_result (if rebinning (config st) then rebinning_scale st else Inr 1) (\<lambda>sf.
      bind_result (if size_correction (config st)
                   then size_correction_of (redshift (target_frame st)) else Inr 1) (\<lambda>scf.
      bind_result (if fixed_grid (config st)
                   then zoom_contents normalised (sf * scf) False 0
                   else zoom ext normalised (sf * scf)) (\<lambda>resampled.
      bind_result (array_div ''rebinned /= rebinned.sum()'' resampled (array_sum resampled)) (\<lambda>unit.
      let out = map_array (\<lambda>v. v * fl) unit in
      Inr (st\<lparr>scale_factor := Some sf, size_correction_factor := Some scf, flux := Some fl,
              rebinned := Some out, final := out\<rparr>)))))))"

subsection \<open>The gated stages\<close>

definition tabulate :: "nat \<times> nat \<Rightarrow> (nat \<Rightarrow> nat \<Rightarrow> 'a) \<Rightarrow> 'a ndarray" where
  "tabulate sh f = NDArray (snd sh) (map (\<lambda>i. map (f i) [0..<snd sh]) [0..<fst sh])"

definition map2_array :: "('a \<Rightarrow> 'b \<Rightarrow> 'c) \<Rightarrow> 'a ndarray \<Rightarrow> 'b ndarray \<Rightarrow> 'c ndarray" where
  \<comment> \<open>An element-wise operation on two arrays of one shape.\<close>
  "map2_array f a b = NDArray (ncols a) (map2 (map2 f) (rows a) (rows b))"

definition mask_zero :: "bool \<Rightarrow> bool ndarray \<Rightarrow> real ndarray \<Rightarrow> failure + real ndarray" where
  \<comment> \<open>\<^verbatim>\<open>a[segmentation == flag] = 0\<close>; a mask of another shape is an IndexError.\<close>
  "mask_zero flag seg a =
     (if shape seg \<noteq> shape a then Inl (IndexError ''boolean index did not match indexed array'')
      else Inr (map2_array (\<lambda>m v. if m = flag then 0 else v) seg a))"

definition cutout_source :: "externals \<Rightarrow> ArtificialRedshift \<Rightarrow> failure + ArtificialRedshift" where
  "cutout_source ext st =
     (if make_cutout (config st) then
        bind_result (central_segmentation_map ext (image_in st)) (\<lambda>segmentation.
        bind_result (mask_zero True segmentation (image_in st)) (\<lambda>masked_arr.
        bind_result (mask_zero False segmentation (image_in st)) (\<lambda>cutout_arr.
        Inr (st\<lparr>cutout := Some cutout_arr, masked := Some masked_arr, final := cutout_arr\<rparr>))))
      else Inr st)"

definition apply_dimming :: "ArtificialRedshift \<Rightarrow> failure + ArtificialRedshift" where
  "apply_dimming st =
     (if dimming (config st) then
        bind_result (float_div ''dimming_factor''
                       (cosmo (config st) (redshift (initial_frame st)))
                       (cosmo (config st) (redshift (target_frame st)))) (\<lambda>ratio.
        let dimmed_arr = map_array (\<lambda>v. v * ratio\<^sup>2) (final st) in
        Inr (st\<lparr>dimming_factor := Some (ratio\<^sup>2), dimmed := Some dimmed_arr, final := dimmed_arr\<rparr>))
      else Inr st)"

definition evolution_correction :: "ArtificialRedshift \<Rightarrow> failure + ArtificialRedshift" where
  "evolution_correction st =
     (if evo (config st) then
        bind_result (py_pow (1 + redshift (target_frame st)) (evo_alpha (config st))) (\<lambda>p.
        let mc = MAG st - MAG st * p;
            ef = 10 powr (- 0.4 * mc);
            evolved = map_array (\<lambda>v. v * ef) (final st) in
        Inr (st\<lparr>mag_correction := Some mc, evo_factor := Some ef,
                with_evolution := Some evolved, final := evolved\<rparr>))
      else Inr st)"

definition flat_evolution_correction :: "ArtificialRedshift \<Rightarrow> failure + ArtificialRedshift" where
  \<comment> \<open>Defined in the source, called by nothing.\<close>
  "flat_evolution_correction st =
     (if evo (config st) then
        let ef = 10 powr (- 0.4 * evo_alpha (config st) * redshift (target_frame st));
            evolved = map_array (\<lambda>v. v * ef) (final st) in
        Inr (st\<lparr>evo_factor := Some ef, with_evolution := Some evolved, final := evolved\<rparr>)
      else Inr st)"

definition convolve_psf :: "externals \<Rightarrow> ArtificialRedshift \<Rightarrow> failure + ArtificialRedshift" where
  "convolve_psf ext st =
     (if convolve_with_psf (config st) then
        bind_result (array_div ''psf /= psf.sum()'' (psf st) (array_sum (psf st))) (\<lambda>kernel.
        bind_result (convolve ext (final st) kernel) (\<lambda>convolved_arr.
        Inr (st\<lparr>psf := kernel, convolved := Some convolved_arr, final := convolved_arr\<rparr>)))
      else Inr st)"

definition apply_shot_noise :: "externals \<Rightarrow> ArtificialRedshift \<Rightarrow> failure + ArtificialRedshift" where
  "apply_shot_noise ext st =
     (if shot_noise (config st) then
        let t = exptime (target_frame st);
            draws = tabulate (shape (final st)) (randn_draw ext) in
        bind_result (array_div ''shot noise / exptime''
                       (map2_array (\<lambda>v r. sqrt \<bar>v * t\<bar> * r) (final st) draws) t) (\<lambda>noise.
        let noisy = map2_array (+) (final st) noise in
        Inr (st\<lparr>shot_noise_field := Some noise, with_shot_noise := Some noisy, final := noisy\<rparr>))
      else Inr st)"

subsection \<open>Background compositing\<close>

definition find_bg_section_method ::
  "externals \<Rightarrow> ArtificialRedshift \<Rightarrow> real ndarray \<Rightarrow> real ndarray \<Rightarrow> bool \<Rightarrow> failure + real ndarray" where
  \<comment> \<open>The method \<^verbatim>\<open>_find_bg_section(self, bg, img, CENTER)\<close>.\<close>
  "find_bg_section_method ext st bg img CENTER =
     (let a = shape0 bg; b = shape1 bg; c = shape0 img; d = shape1 img in
      if CENTER then
        let xi = py_int (real a / 2 - real c / 2);
            xf = py_int (real b / 2 + real d / 2)
        in Inr (slice2 xi xf xi xf bg)
      else
        bind_result
          (case bg_position st of
             None \<Rightarrow>
               if c \<le> a \<and> d \<le> b then
                 bind_result (randint 0 (int a - int c) (randint_x ext)) (\<lambda>x.
                 bind_result (randint 0 (int b - int d) (randint_y ext)) (\<lambda>y. Inr (x, y)))
               else Inl (IndexError ''Galaxy Image larger than BG'')
           | Some pos \<Rightarrow> Inr pos)
          (\<lambda>(x, y). Inr (slice2 x (x + int c) y (y + int d) bg)))"

definition iadd_slice ::
  "int \<Rightarrow> int \<Rightarrow> int \<Rightarrow> int \<Rightarrow> real ndarray \<Rightarrow> real ndarray \<Rightarrow> failure + real ndarray" where
  \<comment> \<open>\<^verbatim>\<open>target[r0:r1, c0:c1] += src\<close>: the source must broadcast to the shape of the
      slice (each of its dimensions equal to the slice's or 1), or numpy raises ValueError.\<close>
  "iadd_slice r0 r1 c0 c1 target src =
     (let lr = slice_start (shape0 target) r0; h = slice_len (shape0 target) r0 r1;
          lc = slice_start (shape1 target) c0; w = slice_len (shape1 target) c0 c1
      in if (shape0 src = h \<or> shape0 src = 1) \<and> (shape1 src = w \<or> shape1 src = 1) then
           Inr (NDArray (ncols target)
                  (map (\<lambda>(i, row).
                          if lr \<le> i \<and> i < lr + h then
                            map (\<lambda>(j, v).
                                   if lc \<le> j \<and> j < lc + w then
                                     v + rows src ! (if shape0 src = 1 then 0 else i - lr)
                                                  ! (if shape1 src = 1 then 0 else j - lc)
                                   else v)
                                (enumerate 0 row)
                          else row)
                       (enumerate 0 (rows target))))
         else Inl (ValueError ''operands could not be broadcast together''))"

definition add_background :: "externals \<Rightarrow> ArtificialRedshift \<Rightarrow> failure + ArtificialRedshift" where
  "add_background ext st =
     (if add_background_on (config st) then
        bind_result (attr ''scale_factor'' (scale_factor st)) (\<lambda>sf.
        bind_result
          (case background st of
             None \<Rightarrow>
               let background_shape = shape (final st) in
               bind_result (measure_background ext (final st) 2 (full background_shape 0))
                 (\<lambda>(mean, median, std).
                    if std < 0 then Inl (ValueError ''scale < 0'')
                    else Inr (tabulate background_shape (\<lambda>i j. std * normal_draw ext i j)))
           | Some bg \<Rightarrow>
               if sf \<le> 1 then find_bg_section_method ext st bg (final st) (bg_centered (config st))
               else find_bg_section_method ext st bg (final st) (bg_centered (config st)))
          (\<lambda>canvas.
        let offset = (if shape0 (final st) mod 2 = 0 then 0 else 1);
            offset_min = py_int (real (shape0 canvas) / 2) - \<lfloor>real (shape0 (final st)) / 2\<rfloor>;
            offset_max = py_int (real (shape0 canvas) / 2) + \<lfloor>real (shape0 (final st)) / 2\<rfloor> + offset
        in bind_result (iadd_slice offset_min offset_max offset_min offset_max canvas (final st))
             (\<lambda>composite.
                Inr (st\<lparr>background := Some canvas, with_background := Some composite,
                        final := composite\<rparr>))))
      else Inr st)"

subsection \<open>Crop for output\<close>

definition crop_for_network :: "int \<Rightarrow> ArtificialRedshift \<Rightarrow> ArtificialRedshift" where
  "crop_for_network sz st =
     (if int (shape0 (final st)) > sz then
        let half_size = py_int (real_of_int sz / 2);
            xc = py_int (real (shape0 (final st)) / 2);
            yc = py_int (real (shape1 (final st)) / 2)
        in st\<lparr>final_crop :=
                Some (slice2 (yc - half_size) (yc + half_size)
                             (xc - half_size) (xc + half_size) (final st))\<rparr>
      else st\<lparr>final_crop := Some (final st)\<rparr>)"

subsection \<open>The constructor\<close>

definition default_Config :: "externals \<Rightarrow> Config" where
  \<comment> \<open>The class attributes of \<^verbatim>\<open>Config\<close>, with \<^verbatim>\<open>h = 0.7\<close>.\<close>
  "default_Config ext =
     \<lparr>cosmo = FlatLambdaCDM ext (100 * 0.7) 0.3 2.725,
      add_background_on = True, rebinning = True, convolve_with_psf = True,
      make_cutout = True, dimming = True, shot_noise = True, size_correction = True,
      evo = True, evo_alpha = - 0.13, output_size = 101, bg_centered = True,
      fixed_grid = True\<rparr>"

definition initial_state ::
  "real ndarray \<Rightarrow> real ndarray \<Rightarrow> real ndarray option \<Rightarrow> ObservationFrame \<Rightarrow> ObservationFrame
     \<Rightarrow> real \<Rightarrow> (int \<times> int) option \<Rightarrow> Config \<Rightarrow> ArtificialRedshift" where
  \<comment> \<open>The attributes set before the first stage; \<^verbatim>\<open>self.cosmo\<close> is \<open>cosmo (config st)\<close>.\<close>
  "initial_state img psf0 bg initial target mag pos cfg =
     \<lparr>image_in = img, psf = psf0, background = bg, initial_frame = initial,
      target_frame = target, MAG = mag, bg_position = pos, config = cfg, final = img,
      cutout = None, masked = None, scale_factor = None, size_correction_factor = None,
      flux = None, rebinned = None, dimming_factor = None, dimmed = None,
      mag_correction = None, evo_factor = None, with_evolution = None, convolved = None,
      shot_noise_field = None, with_shot_noise = None, with_background = None,
      final_crop = None\<rparr>"

definition run_stages :: "externals \<Rightarrow> ArtificialRedshift \<Rightarrow> failure + ArtificialRedshift" where
  "run_stages ext st0 =
     bind_result (cutout_source ext st0) (\<lambda>st1.
     bind_result (geometric_rebinning ext st1) (\<lambda>st2.
     bind_result (apply_dimming st2) (\<lambda>st3.
     bind_result (evolution_correction st3) (\<lambda>st4.
     bind_result (convolve_psf ext st4) (\<lambda>st5.
     bind_result (apply_shot_noise ext st5) (\<lambda>st6.
     bind_result (add_background ext st6) (\<lambda>st7.
     Inr (crop_for_network (output_size (config st7)) st7))))))))"

definition ArtificialRedshift_init ::
  "externals \<Rightarrow> real ndarray \<Rightarrow> real ndarray \<Rightarrow> real ndarray option \<Rightarrow> ObservationFrame
     \<Rightarrow> ObservationFrame \<Rightarrow> real \<Rightarrow> (int \<times> int) option \<Rightarrow> Config option
     \<Rightarrow> failure + ArtificialRedshift" where
  \<comment> \<open>\<^verbatim>\<open>ArtificialRedshift.__init__\<close>\<close>
  "ArtificialRedshift_init ext img psf0 bg initial target mag pos cfg =
     run_stages ext
       (initial_state img psf0 bg initial target mag pos
          (case cfg of None \<Rightarrow> default_Config ext | Some c \<Rightarrow> c))"

subsection \<open>Writing the output file\<close>

datatype card = Float real | Text string | FromTo real real

record 'd fits_file =
  path :: string
  payload :: 'd
  header :: "(string \<times> card) list"

definition writeto ::
  "(string \<Rightarrow> bool) \<Rightarrow> ArtificialRedshift \<Rightarrow> string \<Rightarrow> 'd \<Rightarrow> bool \<Rightarrow> failure + 'd fits_file" where
  \<comment> \<open>The first argument tells which paths exist. \<open>FromTo zi zt\<close> is the history line
      \<^verbatim>\<open>From z = {zi} to z = {zt}\<close>. A keyword is set once, a history line is appended.\<close>
  "writeto exists st filepath data overwrite =
     bind_result (if rebinning (config st)
                  then bind_result (attr ''scale_factor'' (scale_factor st))
                         (\<lambda>v. Inr (AList.update ''REBIN'' (Float v) []))
                  else Inr []) (\<lambda>hdr.
     bind_result (if dimming (config st)
                  then bind_result (attr ''dimming_factor'' (dimming_factor st))
                         (\<lambda>v. Inr (AList.update ''DIM_FACT'' (Float v) hdr))
                  else Inr hdr) (\<lambda>hdr.
     bind_result (if evo (config st)
                  then bind_result (attr ''evo_factor'' (evo_factor st))
                         (\<lambda>v. Inr (AList.update ''EV_ALPHA'' (Float (evo_alpha (config st)))
                                      (AList.update ''EVO_FACT'' (Float v) hdr)))
                  else Inr hdr) (\<lambda>hdr.
     let hdr = hdr @
           [(''HISTORY'', Text ''Image simulated with AREIA: Artificial Redshift Effects for IA''),
            (''HISTORY'', Text ''Source Extracted with Galclean''),
            (''HISTORY'', FromTo (redshift (initial_frame st)) (redshift (target_frame st))),
            (''HISTORY'', Text ''Any issues forward it to leonardo.ferreira@nottingham.ac.uk''),
            (''HISTORY'', Text ''Or seek help at https://github.com/astroferreira/areia'')]
     in if exists filepath \<and> \<not> overwrite then Inl (OSError ''File exists'')
        else Inr \<lparr>path = filepath, payload = data, header = hdr\<rparr>)))"

subsection \<open>Names and the alternate constructor\<close>

text \<open>
  A name in a function body is looked up in the function's local variables, then in the
  globals of its module (then in the builtins, which hold neither of the two names at
  stake here); a name bound nowhere raises NameError. The two namespaces below list
  what the two modules bind at top level: their imports, assignments and definitions.
\<close>

datatype pyobj =
    Module
  | Class
  | Function
  | Data
  | Frame ObservationFrame
  | ArrayFunction "real ndarray \<Rightarrow> failure + real ndarray"

definition resolve :: "(string \<rightharpoonup> pyobj) \<Rightarrow> (string \<rightharpoonup> pyobj) \<Rightarrow> string \<Rightarrow> failure + pyobj" where
  "resolve locals globals name =
     (case locals name of
        Some v \<Rightarrow> Inr v
      | None \<Rightarrow> (case globals name of Some v \<Rightarrow> Inr v | None \<Rightarrow> Inl (NameError name)))"

definition areia_globals :: "string \<rightharpoonup> pyobj" where
  "areia_globals = map_of
     [(''__title__'', Data), (''__author__'', Data), (''__version__'', Data),
      (''sys'', Module), (''argparse'', Module), (''np'', Module), (''glob'', Module),
      (''fits'', Module), (''FlatLambdaCDM'', Class), (''convolve'', Function),
      (''const'', Module), (''u'', Module), (''detect_sources'', Function),
      (''detect_threshold'', Function), (''central_segmentation_map'', Function),
      (''measure_background'', Function), (''zoom'', Function), (''interpn'', Function),
      (''plt'', Module), (''zoom_contents'', Function), (''Config'', Class),
      (''ObservationFrame'', Class), (''ArtificialRedshift'', Class)]"

definition as_frame :: "pyobj \<Rightarrow> failure + ObservationFrame" where
  "as_frame v = (case v of Frame f \<Rightarrow> Inr f | _ \<Rightarrow> Inl (AttributeError ''redshift''))"

definition fromrawdata ::
  "(string \<rightharpoonup> pyobj) \<Rightarrow> real ndarray \<Rightarrow> real ndarray \<Rightarrow> real ndarray option
     \<Rightarrow> real \<Rightarrow> real \<Rightarrow> real \<Rightarrow> real \<Rightarrow> real \<Rightarrow> real \<Rightarrow> failure + ArtificialRedshift" where
  \<comment> \<open>The first argument is the global namespace the body runs in. The arguments of the
      call of \<^verbatim>\<open>cls\<close> are evaluated from left to right; the call then has five positional
      arguments for the six parameters of \<^verbatim>\<open>__init__\<close> that have no default
      (\<^verbatim>\<open>MAG\<close> is the sixth), which is a TypeError before the body of \<^verbatim>\<open>__init__\<close> runs.\<close>
  "fromrawdata globals img psf0 bg initial_redshift target_redshift initial_pixelscale
       target_pixelscale obs_exptime target_exptime =
     (let current_frame = \<lparr>pixelscale = initial_pixelscale, redshift = initial_redshift,
                            exptime = obs_exptime\<rparr>;
          target_frame = \<lparr>pixelscale = target_pixelscale, redshift = target_redshift,
                           exptime = target_exptime\<rparr>;
          locals = [''cls'' \<mapsto> Class, ''image'' \<mapsto> Data, ''psf'' \<mapsto> Data,
                    ''background'' \<mapsto> Data, ''initial_redshift'' \<mapsto> Data,
                    ''target_redshift'' \<mapsto> Data, ''initial_pixelscale'' \<mapsto> Data,
                    ''target_pixelscale'' \<mapsto> Data, ''obs_exptime'' \<mapsto> Data,
                    ''target_exptime'' \<mapsto> Data, ''current_frame'' \<mapsto> Frame current_frame,
                    ''target_frame'' \<mapsto> Frame target_frame]
      in bind_result (resolve locals globals ''initial_frame'') (\<lambda>initial.
         bind_result (resolve locals globals ''target_frame'') (\<lambda>target.
         Inl (TypeError ''__init__() missing 1 required positional argument: MAG''))))"

subsection \<open>The background module: random placement\<close>

definition background_globals :: "string \<rightharpoonup> pyobj" where
  "background_globals = map_of
     [(''pd'', Module), (''np'', Module), (''plt'', Module), (''WCS'', Class),
      (''Cutout2D'', Class), (''SkyCoord'', Class), (''skycoord_to_pixel'', Function),
      (''fits'', Module), (''u'', Module), (''CircularAperture'', Class),
      (''aperture_photometry'', Function), (''gds'', Data), (''field125'', Data),
      (''field160'', Data), (''wcs160'', Data), (''wcs125'', Data), (''center_coord'', Data),
      (''ra_min'', Data), (''ra_max'', Data), (''dec_min'', Data), (''dec_max'', Data),
      (''subset'', Data), (''RAs'', Data), (''DECs'', Data), (''source_coords'', Data),
      (''find_bg_section'', Function), (''find_bg_section_from_goodss'', Function),
      (''find_bg_coords'', Function)]"

definition call_array_function :: "pyobj \<Rightarrow> real ndarray \<Rightarrow> failure + real ndarray" where
  "call_array_function f a =
     (case f of ArrayFunction g \<Rightarrow> g a | _ \<Rightarrow> Inl (TypeError ''object is not callable''))"

definition find_bg_coords ::
  "(string \<rightharpoonup> pyobj) \<Rightarrow> int \<Rightarrow> int \<Rightarrow> real ndarray \<Rightarrow> real ndarray
     \<Rightarrow> failure + (int \<times> nat \<times> int \<times> nat)" where
  \<comment> \<open>The first argument is the global namespace the body runs in, the next two are
      the raw draws of the two calls of \<^verbatim>\<open>np.random.randint\<close>.\<close>
  "find_bg_coords globals raw_x raw_y bg img =
     bind_result (resolve [''bg'' \<mapsto> Data, ''img'' \<mapsto> Data] globals ''random_flips'') (\<lambda>f.
     bind_result (call_array_function f bg) (\<lambda>bg.
     let a = shape0 bg; b = shape1 bg; c = shape0 img; d = shape1 img in
     if c \<le> a \<and> d \<le> b then
       bind_result (randint 0 (int a - int c) raw_x) (\<lambda>x.
       bind_result (randint 0 (int b - int d) raw_y) (\<lambda>y. Inr (x, c, y, d)))
     else Inl (IndexError ''Galaxy Image larger than BG'')))"

definition find_bg_section ::
  "(string \<rightharpoonup> pyobj) \<Rightarrow> int \<Rightarrow> int \<Rightarrow> real ndarray \<Rightarrow> real ndarray \<Rightarrow> failure + real ndarray" where
  "find_bg_section globals raw_x raw_y bg img =
     bind_result (resolve [''bg'' \<mapsto> Data, ''img'' \<mapsto> Data] globals ''random_flips'') (\<lambda>f.
     bind_result (call_array_function f bg) (\<lambda>bg.
     let a = shape0 bg; b = shape1 bg; c = shape0 img; d = shape1 img in
     bind_result
       (if c \<le> a \<and> d \<le> b then
          bind_result (randint 0 (int a - int c) raw_x) (\<lambda>x.
          bind_result (randint 0 (int b - int d) raw_y) (\<lambda>y. Inr (x, y)))
        else Inl (IndexError ''Galaxy Image larger than BG''))
       (\<lambda>(x, y). Inr (slice2 x (x + int c) y (y + int d) bg))))"

subsection \<open>The background module: clean cutouts of the survey mosaic\<close>

text \<open>
  The survey as the sampler sees it: the first dimension of the mosaic, the pixel to
  sky transformation, the cutout of the mosaic at a sky position (which may raise), the
  separations in arcseconds from a sky position to the sources of the catalogue subset,
  and the aperture photometry of a cutout.
\<close>

record survey =
  mosaic_shape0 :: nat
  wcs_pix2world :: "int \<Rightarrow> int \<Rightarrow> real \<times> real"
  Cutout2D :: "real \<times> real \<Rightarrow> int \<Rightarrow> failure + real ndarray"
  separation :: "real \<times> real \<Rightarrow> real list"
  aperture_sum :: "real ndarray \<Rightarrow> real \<times> real \<Rightarrow> real \<Rightarrow> real"

fun minimum :: "real list \<Rightarrow> failure + real" where
  "minimum [] = Inl (ValueError ''zero-size array to reduction operation minimum'')"
| "minimum (x # xs) = Inr (fold min xs x)"

definition aperture_rejects :: "real \<Rightarrow> real \<Rightarrow> bool" where
  \<comment> \<open>\<^verbatim>\<open>LT == 0 or LT > 20 or LT > light_outside\<close>\<close>
  "aperture_rejects LT light_outside = (LT = 0 \<or> LT > 20 \<or> LT > light_outside)"

fun search_goodss ::
  "survey \<Rightarrow> int \<Rightarrow> (int \<times> int) list \<Rightarrow> (failure + real ndarray \<times> (real \<times> real)) option" where
  \<comment> \<open>The loop \<^verbatim>\<open>while(reiterate)\<close> and the two statements after it, on the raw draws of
      its iterations. \<open>None\<close>: the draws are used up and the loop is still running. The
      unused locals \<^verbatim>\<open>x_i, x_f, y_i, y_f\<close> and the counter \<^verbatim>\<open>num_iters\<close> are left out.\<close>
  "search_goodss sv offset [] = None"
| "search_goodss sv offset ((raw_x, raw_y) # draws) =
     (case randint offset (int (mosaic_shape0 sv) - offset) raw_x of
        Inl e \<Rightarrow> Some (Inl e)
      | Inr x_c \<Rightarrow>
     (case randint offset (int (mosaic_shape0 sv) - offset) raw_y of
        Inl e \<Rightarrow> Some (Inl e)
      | Inr y_c \<Rightarrow>
     (let bg_coord = wcs_pix2world sv x_c y_c in
      case Cutout2D sv bg_coord offset of
        Inl e \<Rightarrow> search_goodss sv offset draws
      | Inr bg160 \<Rightarrow>
     (let distances = map (\<lambda>s. s / 0.06) (separation sv bg_coord);
          within_reach = filter (\<lambda>d. d < real_of_int offset / 2) distances;
          too_close = filter (\<lambda>d. d \<le> real_of_int offset / 2.5) within_reach
      in case minimum distances of
           Inl e \<Rightarrow> Some (Inl e)
         | Inr nearest \<Rightarrow>
             if nearest > real_of_int offset / 1.5 then search_goodss sv offset draws
             else
               let LT = aperture_sum sv bg160 (real_of_int offset / 2, real_of_int offset / 2)
                          (real_of_int offset / 3);
                   light_outside = array_sum bg160 - LT
               in if aperture_rejects LT light_outside then search_goodss sv offset draws
                  else if length too_close = 0 then
                    (case Cutout2D sv bg_coord offset of
                       Inl e \<Rightarrow> Some (Inl e)
                     | Inr bg125 \<Rightarrow> Some (Inr (bg125, bg_coord)))
                  else search_goodss sv offset draws))))"

definition find_bg_section_from_goodss ::
  "survey \<Rightarrow> (int \<times> int) list \<Rightarrow> int \<Rightarrow> (real \<times> real) option
     \<Rightarrow> (failure + real ndarray \<times> (real \<times> real)) option" where
  "find_bg_section_from_goodss sv draws sz bg_coord =
     (case bg_coord of
        None \<Rightarrow> search_goodss sv sz draws
      | Some c \<Rightarrow>
          Some (case Cutout2D sv c sz of Inl e \<Rightarrow> Inl e | Inr bg160 \<Rightarrow> Inr (bg160, c)))"

subsection \<open>What the header is written from\<close>

definition provenance ::
  "ArtificialRedshift \<Rightarrow> Config \<times> ObservationFrame \<times> ObservationFrame \<times> real" where
  \<comment> \<open>The inputs of the run that no stage changes.\<close>
  "provenance st = (config st, initial_frame st, target_frame st, MAG st)"

subsection \<open>Stand-ins for the third-party capabilities\<close>

text \<open>
  Concrete values of the parameters, for the examples below: the Hubble law in place
  of the luminosity distance of the cosmology (in Mpc), a positivity threshold in place
  of the segmentation, unit background noise, a nearest-neighbour resize, a kernel that
  only scales the image, and random draws that are all zero.
\<close>

definition hubble_distance :: "real \<Rightarrow> real \<Rightarrow> real \<Rightarrow> real \<Rightarrow> real" where
  "hubble_distance H0 Om0 Tcmb0 z = 299792.458 / H0 * z * (1 + z)"

definition nearest_zoom :: "real ndarray \<Rightarrow> real \<Rightarrow> failure + real ndarray" where
  \<comment> \<open>The output has \<open>round (n * s)\<close> points on an axis of \<open>n\<close> points; output index \<open>i\<close>
      reads the input at the index nearest to \<open>i * (n - 1) / (m - 1)\<close>.\<close>
  "nearest_zoom a s =
     (let m0 = nat (round (real (shape0 a) * s)); m1 = nat (round (real (shape1 a) * s));
          src = (\<lambda>n m i. if m \<le> 1 then 0
                           else nat \<lfloor>real i * (real n - 1) / (real m - 1) + 1 / 2\<rfloor>)
      in if s \<le> 0 then Inl (ValueError ''zoom must be positive'')
         else Inr (tabulate (m0, m1)
                     (\<lambda>i j. rows a ! src (shape0 a) m0 i ! src (shape1 a) m1 j)))"

definition stand_in :: externals where
  "stand_in =
     \<lparr>FlatLambdaCDM = hubble_distance,
      central_segmentation_map = (\<lambda>a. Inr (map_array (\<lambda>v. 0 < v) a)),
      measure_background = (\<lambda>a order mask. Inr (0, 0, 1)),
      zoom = nearest_zoom,
      convolve = (\<lambda>a k. Inr (map_array (\<lambda>v. v * array_sum k) a)),
      randn_draw = (\<lambda>i j. 0),
      normal_draw = (\<lambda>i j. 0),
      randint_x = 0,
      randint_y = 0\<rparr>"

definition frame_at :: "real \<Rightarrow> ObservationFrame" where
  \<comment> \<open>A frame at the given redshift, with 0.06 arcsec pixels and 1000 s of exposure.\<close>
  "frame_at z = \<lparr>pixelscale = 0.06, redshift = z, exptime = 1000\<rparr>"

definition all_disabled :: Config where
  \<comment> \<open>The default configuration with every toggle disabled.\<close>
  "all_disabled =
     (default_Config stand_in)
       \<lparr>add_background_on := False, rebinning := False, convolve_with_psf := False,
        make_cutout := False, dimming := False, shot_noise := False,
        size_correction := False, evo := False, bg_centered := False,
        fixed_grid := False\<rparr>"

definition pixels_within :: "real ndarray \<Rightarrow> real \<times> real \<Rightarrow> real \<Rightarrow> real" where
  \<comment> \<open>A stand-in for the aperture photometry: the sum of the pixels whose centre
      \<open>(x, y) = (column, row)\<close> lies within the radius of the position.\<close>
  "pixels_within data pos r =
     sum_list (map (\<lambda>(i, row).
                 sum_list (map (\<lambda>(j, v). if (real j - fst pos)\<^sup>2 + (real i - snd pos)\<^sup>2 \<le> r\<^sup>2
                                          then v else 0)
                             (enumerate 0 row)))
               (enumerate 0 (rows data)))"

definition sky_patch :: "real ndarray \<Rightarrow> survey" where
  \<comment> \<open>A stand-in survey: a mosaic of 100 pixels on its first axis that shows the same
      patch wherever it is cut, with one catalogue source 0.15 arcsec (2.5 pixels) from
      every position.\<close>
  "sky_patch data =
     \<lparr>mosaic_shape0 = 100,
      wcs_pix2world = (\<lambda>x y. (real_of_int x, real_of_int y)),
      Cutout2D = (\<lambda>pos sz. if int (shape0 data) = sz \<and> int (shape1 data) = sz then Inr data
                             else Inl (ValueError ''no overlap'')),
      separation = (\<lambda>pos. [0.15]),
      aperture_sum = pixels_within\<rparr>"

definition faint_patch :: "real ndarray" where
  \<comment> \<open>Sky-subtracted noise: slightly negative at the centre, positive around it.\<close>
  "faint_patch = NDArray 4 [[0.5, 0.5, 0.5, 0.5],
                            [0.5, 0.5, - 0.2, 0.5],
                            [0.5, - 0.2, - 0.2, - 0.2],
                            [0.5, 0.5, - 0.2, 0.5]]"

definition quiet_patch :: "real ndarray" where
  "quiet_patch = NDArray 4 [[0.1, 0.1, 0.1, 0.1],
                            [0.1, 0.1, 0.1, 0.1],
                            [0.1, 0.1, 0.1, 0.1],
                            [0.1, 0.1, 0.1, 0.1]]"

definition bright_patch :: "real ndarray" where
  "bright_patch = NDArray 4 [[5, 5, 5, 5], [5, 5, 5, 5], [5, 5, 5, 5], [5, 5, 5, 5]]"

section \<open>Properties\<close>

subsection \<open>Slices and the crop\<close>

lemma py_int_half_nat: "py_int (real n / 2) = int (n div 2)"
  unfolding py_int_def using floor_divide_of_nat_eq [of n 2, where ?'a = real] by simp

lemma py_int_half_int: "0 \<le> k \<Longrightarrow> py_int (real_of_int k / 2) = k div 2"
  unfolding py_int_def using floor_divide_of_int_eq [of k 2, where ?'a = real] by simp

lemma slice_start_in: "0 \<le> i \<Longrightarrow> nat i \<le> n \<Longrightarrow> slice_start n i = nat i"
  by (simp add: slice_start_def)

lemma slice_start_le: "slice_start n i \<le> n"
  by (auto simp add: slice_start_def)

lemma length_py_slice: "length (py_slice lo hi xs) = slice_len (length xs) lo hi"
  using slice_start_le [of "length xs" hi]
  by (simp add: py_slice_def slice_len_def Let_def)

lemma shape_full: "shape (full (n, m) v) = (n, m)"
  by (simp add: shape_def shape0_def shape1_def full_def)

lemma crop_square_shape:
  assumes sq: "shape (final st) = (n, n)" and big: "int n > sz" and pos: "0 \<le> sz"
  shows "map_option shape (final_crop (crop_for_network sz st))
           = Some (2 * nat (sz div 2), 2 * nat (sz div 2))"
proof -
  let ?h = "sz div 2"
  let ?c = "int (n div 2)"
  have h0: "0 \<le> ?h" using pos by simp
  have hc: "?h \<le> ?c" using big pos by linarith
  have lo: "slice_start n (?c - ?h) = nat (?c - ?h)"
    using hc h0 by (intro slice_start_in) linarith+
  have hi: "slice_start n (?c + ?h) = nat (?c + ?h)"
    using hc h0 big pos by (intro slice_start_in) linarith+
  have len: "slice_len n (?c - ?h) (?c + ?h) = 2 * nat ?h"
    unfolding slice_len_def lo hi using hc h0 by linarith
  have n0: "length (rows (final st)) = n" and n1: "ncols (final st) = n"
    using sq by (simp_all add: shape_def shape0_def shape1_def)
  have rl: "length (py_slice (?c - ?h) (?c + ?h) (rows (final st))) = 2 * nat ?h"
    using len by (simp add: length_py_slice n0)
  show ?thesis
    using big pos rl len
    by (simp add: crop_for_network_def Let_def py_int_half_nat py_int_half_int
        shape_def shape0_def shape1_def slice2_def n0 n1)
qed

lemma crop_small_unchanged:
  "int (shape0 (final st)) \<le> sz \<Longrightarrow> final_crop (crop_for_network sz st) = Some (final st)"
  by (simp add: crop_for_network_def)

text \<open>
  C1. The crop of a composite larger than the configured output size should have
  exactly that size in both dimensions. It has not when the size is odd: with the
  default size 101, a composite of 103 by 103 pixels is cropped to 100 by 100 pixels,
  since the slice runs from \<open>yc - 50\<close> to \<open>yc + 50\<close>.
\<close>

theorem crop_for_network_default_size_loses_a_pixel:
  "map_option shape (final_crop (crop_for_network 101 (st\<lparr>final := full (103, 103) v\<rparr>)))
     = Some (100, 100)"
  using crop_square_shape [of "st\<lparr>final := full (103, 103) v\<rparr>" 103 101]
  by (simp add: shape_full)

subsection \<open>Names that are bound nowhere\<close>

lemma bind_result_simps [simp]:
  "bind_result (Inl e) f = Inl e" "bind_result (Inr x) f = f x"
  by (simp_all add: bind_result_def)

lemma areia_globals_initial_frame: "areia_globals ''initial_frame'' = None"
  by (simp add: areia_globals_def)

lemma background_globals_random_flips: "background_globals ''random_flips'' = None"
  by (simp add: background_globals_def)

lemma resolve_unbound:
  "locals name = None \<Longrightarrow> globals name = None
     \<Longrightarrow> resolve locals globals name = Inl (NameError name)"
  by (simp add: resolve_def)

lemma bind_result_Inl_const:
  "\<exists>e. bind_result m (\<lambda>x. bind_result (k x) (\<lambda>y. Inl (c x y))) = Inl e"
  by (cases m; simp; (case_tac "k b"; simp))

text \<open>
  C8. In the namespace of the module, the alternate constructor raises NameError for
  \<^verbatim>\<open>initial_frame\<close> whatever its arguments are; and in any namespace at all it returns
  no pipeline object, since the call of the main constructor lacks the magnitude.
\<close>

theorem fromrawdata_never_constructs:
  "fromrawdata areia_globals img psf0 bg zi zt pi_s pt_s ei et = Inl (NameError ''initial_frame'')
   \<and> (\<exists>e. fromrawdata globals img psf0 bg zi zt pi_s pt_s ei et = Inl e)"
proof
  show "fromrawdata areia_globals img psf0 bg zi zt pi_s pt_s ei et
          = Inl (NameError ''initial_frame'')"
    unfolding fromrawdata_def Let_def
    by (subst resolve_unbound) (simp_all add: areia_globals_initial_frame)
  show "\<exists>e. fromrawdata globals img psf0 bg zi zt pi_s pt_s ei et = Inl e"
    unfolding fromrawdata_def Let_def by (rule bind_result_Inl_const)
qed

text \<open>
  C9. In the namespace of the background module, every call of the two samplers
  \<^verbatim>\<open>find_bg_section\<close> and \<^verbatim>\<open>find_bg_coords\<close> raises NameError for \<^verbatim>\<open>random_flips\<close>, whatever
  the arrays and the random draws are; so neither ever raises the IndexError of the
  size check.
\<close>

theorem standalone_samplers_raise_NameError:
  "find_bg_section background_globals raw_x raw_y bg img = Inl (NameError ''random_flips'')
   \<and> find_bg_coords background_globals raw_x raw_y bg img = Inl (NameError ''random_flips'')
   \<and> find_bg_section background_globals raw_x raw_y bg img
        \<noteq> Inl (IndexError ''Galaxy Image larger than BG'')
   \<and> find_bg_coords background_globals raw_x raw_y bg img
        \<noteq> Inl (IndexError ''Galaxy Image larger than BG'')"
proof -
  have r: "resolve [''bg'' \<mapsto> Data, ''img'' \<mapsto> Data] background_globals ''random_flips''
             = Inl (NameError ''random_flips'')"
    by (rule resolve_unbound) (simp_all add: background_globals_random_flips)
  have s: "find_bg_section background_globals raw_x raw_y bg img
             = Inl (NameError ''random_flips'')"
    unfolding find_bg_section_def r by simp
  have c: "find_bg_coords background_globals raw_x raw_y bg img
             = Inl (NameError ''random_flips'')"
    unfolding find_bg_coords_def r by simp
  show ?thesis unfolding s c by simp
qed

subsection \<open>The resampler at scale one\<close>

lemma length_in_coords [simp]: "length (in_coords n) = n"
  by (simp add: in_coords_def)

lemma nth_in_coords: "k < n \<Longrightarrow> in_coords n ! k = real k - (real n - 1) / 2"
  by (simp add: in_coords_def)

lemma searchsorted_in_coords:
  assumes "k < n"
  shows "searchsorted (in_coords n) (in_coords n ! k) = k"
proof -
  have "takeWhile (\<lambda>g. g < in_coords n ! k) (in_coords n) = take k (in_coords n)"
    using assms by (intro takeWhile_eq_take_P_nth) (simp_all add: nth_in_coords)
  then show ?thesis using assms by (simp add: searchsorted_def)
qed

lemma find_index_in_coords:
  assumes "k < n"
  shows "find_index (in_coords n) (in_coords n ! k)
           = (if n = 1 then - 1 else if k = 0 then 0 else int k - 1)"
  using assms by (auto simp add: find_index_def searchsorted_in_coords Let_def)

lemma norm_distance_in_coords:
  assumes "k < n"
  shows "norm_distance (in_coords n) (in_coords n ! k) = (if n = 1 \<or> k = 0 then 0 else 1)"
proof (cases "n = 1 \<or> k = 0")
  case True
  then show ?thesis
    using assms by (auto simp add: norm_distance_def Let_def find_index_in_coords py_nth_def)
next
  case False
  then have k: "nat (int k - 1) = k - 1" "nat (int k - 1 + 1) = k" "k - 1 < n" "n \<noteq> 1" "k \<noteq> 0"
    using assms by simp_all
  have "in_coords n ! k - in_coords n ! (k - 1) = 1"
    using assms False k by (simp add: nth_in_coords of_nat_diff)
  then show ?thesis
    using assms False k
    by (simp add: norm_distance_def Let_def find_index_in_coords py_nth_def)
qed

lemma in_bounds_in_coords:
  assumes "k < n"
  shows "\<not> out_of_bounds (in_coords n) (in_coords n ! k)"
proof -
  have ne: "in_coords n \<noteq> []" using assms by (auto simp add: in_coords_def)
  have "last (in_coords n) = in_coords n ! (n - 1)"
    using ne by (simp add: last_conv_nth)
  then show ?thesis
    using assms by (simp add: out_of_bounds_def nth_in_coords of_nat_diff)
qed

lemma axis_edges:
  assumes "k < n" and "length xs = n"
  shows "f (py_nth xs (find_index (in_coords n) (in_coords n ! k)))
           * (1 - norm_distance (in_coords n) (in_coords n ! k))
         + f (py_nth xs (find_index (in_coords n) (in_coords n ! k) + 1))
           * norm_distance (in_coords n) (in_coords n ! k)
         = (f (xs ! k) :: real)"
  using assms
  by (auto simp add: find_index_in_coords norm_distance_in_coords py_nth_def nat_diff_distrib)

lemma evaluate_linear_grid_point:
  assumes "i < n0" "j < n1" "length (rows vals) = n0"
    and "\<And>r. r < n0 \<Longrightarrow> length (rows vals ! r) = n1"
  shows "evaluate_linear (in_coords n0) (in_coords n1) vals (in_coords n0 ! i, in_coords n1 ! j)
           = rows vals ! i ! j"
proof -
  let ?i = "find_index (in_coords n0) (in_coords n0 ! i)"
  let ?y0 = "norm_distance (in_coords n0) (in_coords n0 ! i)"
  let ?j = "find_index (in_coords n1) (in_coords n1 ! j)"
  let ?y1 = "norm_distance (in_coords n1) (in_coords n1 ! j)"
  have inner: "py_nth r ?j * (1 - ?y1) + py_nth r (?j + 1) * ?y1 = r ! j"
    if "length r = n1" for r :: "real list"
    using axis_edges [OF assms(2) that, of "\<lambda>v. v"] by simp
  have outer: "g (py_nth (rows vals) ?i) * (1 - ?y0) + g (py_nth (rows vals) (?i + 1)) * ?y0
                 = g (rows vals ! i)" for g :: "real list \<Rightarrow> real"
    using axis_edges [OF assms(1,3), of g] by simp
  have "evaluate_linear (in_coords n0) (in_coords n1) vals (in_coords n0 ! i, in_coords n1 ! j)
          = (py_nth (py_nth (rows vals) ?i) ?j * (1 - ?y1)
               + py_nth (py_nth (rows vals) ?i) (?j + 1) * ?y1) * (1 - ?y0)
            + (py_nth (py_nth (rows vals) (?i + 1)) ?j * (1 - ?y1)
               + py_nth (py_nth (rows vals) (?i + 1)) (?j + 1) * ?y1) * ?y0"
    by (simp add: evaluate_linear_def Let_def algebra_simps)
  also have "\<dots> = py_nth (rows vals ! i) ?j * (1 - ?y1) + py_nth (rows vals ! i) (?j + 1) * ?y1"
    using outer [of "\<lambda>r. py_nth r ?j * (1 - ?y1) + py_nth r (?j + 1) * ?y1"] .
  also have "\<dots> = rows vals ! i ! j"
    using inner [of "rows vals ! i"] assms by simp
  finally show ?thesis .
qed

lemma map_array_id: "map_array (\<lambda>v. v) a = a"
  by (cases a) (simp add: map_array_def)

lemma interpn_grid_points:
  assumes ws: "well_shaped a" and r: "1 \<le> shape0 a" and c: "1 \<le> shape1 a"
  shows "interpn (in_coords (shape0 a)) (in_coords (shape1 a)) a
           (out_coords (shape0 a) (shape1 a) 1) fill = Inr a"
proof -
  let ?n0 = "shape0 a" and ?n1 = "shape1 a"
  let ?f = "\<lambda>p. if out_of_bounds (in_coords ?n0) (fst p) \<or> out_of_bounds (in_coords ?n1) (snd p)
                 then fill else evaluate_linear (in_coords ?n0) (in_coords ?n1) a p"
  have len: "length (rows a ! i) = ?n1" if "i < ?n0" for i
    using ws that by (simp add: well_shaped_def list_all_length shape0_def shape1_def)
  have cell: "?f (in_coords ?n0 ! i, in_coords ?n1 ! j) = rows a ! i ! j"
    if "i < ?n0" "j < ?n1" for i j
    using that len
    by (simp add: in_bounds_in_coords evaluate_linear_grid_point shape0_def)
  have row: "map (\<lambda>y. ?f (in_coords ?n0 ! i, y)) (in_coords ?n1) = rows a ! i" if "i < ?n0" for i
  proof (rule nth_equalityI)
    show "length (map (\<lambda>y. ?f (in_coords ?n0 ! i, y)) (in_coords ?n1)) = length (rows a ! i)"
      using len [OF that] by simp
  next
    fix j assume "j < length (map (\<lambda>y. ?f (in_coords ?n0 ! i, y)) (in_coords ?n1))"
    then have "j < ?n1" by simp
    then show "map (\<lambda>y. ?f (in_coords ?n0 ! i, y)) (in_coords ?n1) ! j = rows a ! i ! j"
      using cell [OF that] by simp
  qed
  have all: "map (\<lambda>x. map (\<lambda>y. ?f (x, y)) (in_coords ?n1)) (in_coords ?n0) = rows a"
  proof (rule nth_equalityI)
    show "length (map (\<lambda>x. map (\<lambda>y. ?f (x, y)) (in_coords ?n1)) (in_coords ?n0)) = length (rows a)"
      by (simp add: shape0_def)
  next
    fix i assume "i < length (map (\<lambda>x. map (\<lambda>y. ?f (x, y)) (in_coords ?n1)) (in_coords ?n0))"
    then have "i < ?n0" by simp
    then show "map (\<lambda>x. map (\<lambda>y. ?f (x, y)) (in_coords ?n1)) (in_coords ?n0) ! i = rows a ! i"
      using row by simp
  qed
  have "map_array ?f (out_coords ?n0 ?n1 1) = NDArray ?n1 (rows a)"
    using all by (simp add: map_array_def out_coords_def comp_def)
  also have "\<dots> = a" by (cases a) (simp add: shape1_def)
  finally have "map_array ?f (out_coords ?n0 ?n1 1) = a" .
  then show ?thesis
    using r c by (simp add: interpn_def)
qed

lemma zoom_contents_scale_one:
  assumes "well_shaped a" "1 \<le> shape0 a" "1 \<le> shape1 a"
  shows "zoom_contents a 1 conserve fill = Inr a"
  using assms by (simp add: zoom_contents_def interpn_grid_points map_array_id)




subsection \<open>Flux through the rebinning stage\<close>

lemma sum_list_map_divide: "sum_list (map (\<lambda>v. v / c) xs) = sum_list xs / (c::real)"
  by (induction xs) (simp_all add: add_divide_distrib)

lemma sum_list_map_times: "sum_list (map (\<lambda>v. v * c) xs) = sum_list xs * (c::real)"
  by (induction xs) (simp_all add: distrib_right)

lemma array_sum_divide: "array_sum (map_array (\<lambda>v. v / c) a) = array_sum a / c"
proof -
  have "map sum_list (map (map (\<lambda>v. v / c)) (rows a)) = map (\<lambda>v. v / c) (map sum_list (rows a))"
    by (simp add: sum_list_map_divide)
  then show ?thesis
    by (simp only: array_sum_def map_array_def ndarray.sel sum_list_map_divide)
qed

lemma array_sum_times: "array_sum (map_array (\<lambda>v. v * c) a) = array_sum a * c"
proof -
  have "map sum_list (map (map (\<lambda>v. v * c)) (rows a)) = map (\<lambda>v. v * c) (map sum_list (rows a))"
    by (simp add: sum_list_map_times)
  then show ?thesis
    by (simp only: array_sum_def map_array_def ndarray.sel sum_list_map_times)
qed

lemma array_div_Inr: "y \<noteq> 0 \<Longrightarrow> array_div site a y = Inr (map_array (\<lambda>v. v / y) a)"
  by (simp add: array_div_def)

lemma array_div_zero: "array_div site a 0 = Inl (NonFinite site)"
  by (simp add: array_div_def)

lemma in_coords_two: "in_coords 2 = [- (1 / 2), 1 / 2]"
  by (simp add: in_coords_def numeral_2_eq_2)

lemma zoom_contents_two_by_two_shrunk:
  assumes s: "0 < s" "s < 1" and sh: "shape0 a = 2" "shape1 a = 2"
  shows "zoom_contents a s False fill = Inr (NDArray 2 [[fill, fill], [fill, fill]])"
proof -
  have lo: "- (1 / 2) / s < - (1 / 2)" using s by (simp add: field_simps)
  have hi: "1 / 2 < 1 / 2 / s" using s by (simp add: field_simps)
  have oob: "out_of_bounds [- (1 / 2), 1 / 2] (- (1 / 2) / s)"
            "out_of_bounds [- (1 / 2), 1 / 2] (1 / 2 / s)"
    using lo hi by (simp_all add: out_of_bounds_def)
  show ?thesis
    using s oob
    by (simp add: zoom_contents_def sh in_coords_two interpn_def out_coords_def map_array_def)
qed

lemma size_correction_of_one_bounds:
  "size_correction_of 1 = Inr (2 powr (- 0.97)) \<and> 0 < (2::real) powr (- 0.97)
     \<and> (2::real) powr (- 0.97) < 1"
proof -
  have "(2::real) powr (- 0.97) < 1 powr (- 0.97)"
    by (rule powr_less_mono2_neg) simp_all
  then show ?thesis by (simp add: size_correction_of_def py_pow_def)
qed

lemma array_sum_full: "array_sum (full (n, m) v) = real n * (real m * v)"
  by (simp add: array_sum_def full_def sum_list_replicate)

lemma array_sum_ones: "array_sum (full (2, 2) 1) = 4"
  by (simp add: array_sum_full)

text \<open>
  C10. In every configuration the rebinning stage divides the working array by its
  total sum before it looks at any toggle. When that sum is zero the division is by
  zero: no exception is raised, and the stage has no real-valued output (numpy goes on
  with \<^verbatim>\<open>nan\<close>). A sum that is not zero is a precondition of the stage.
\<close>

theorem geometric_rebinning_needs_nonzero_sum:
  assumes "array_sum (final st) = 0"
  shows "geometric_rebinning ext st = Inl (NonFinite ''final / flux'')"
  using assms by (simp add: geometric_rebinning_def Let_def array_div_zero)

theorem geometric_rebinning_needs_nonzero_sum_witness:
  "array_sum (final (initial_state (full (2, 2) 0) (full (3, 3) 1) None (frame_at 0)
                      (frame_at 1) 0 None (default_Config stand_in))) = 0
   \<and> geometric_rebinning stand_in
        (initial_state (full (2, 2) 0) (full (3, 3) 1) None (frame_at 0) (frame_at 1) 0 None
           (default_Config stand_in))
       = Inl (NonFinite ''final / flux'')"
proof -
  have zero: "array_sum (final (initial_state (full (2, 2) 0) (full (3, 3) 1) None (frame_at 0)
                                  (frame_at 1) 0 None (default_Config stand_in))) = 0"
    by (simp add: initial_state_def array_sum_full)
  show ?thesis
    using zero geometric_rebinning_needs_nonzero_sum [OF zero, of stand_in] by simp
qed

lemma geometric_rebinning_returns:
  assumes "array_sum (final st) \<noteq> 0"
    and "(if rebinning (config st) then rebinning_scale st else Inr 1) = Inr sf"
    and "(if size_correction (config st)
          then size_correction_of (redshift (target_frame st)) else Inr 1) = Inr scf"
    and "(if fixed_grid (config st)
          then zoom_contents (map_array (\<lambda>v. v / array_sum (final st)) (final st))
                 (sf * scf) False 0
          else zoom ext (map_array (\<lambda>v. v / array_sum (final st)) (final st)) (sf * scf))
         = Inr resampled"
    and "array_sum resampled \<noteq> 0"
  shows "\<exists>st'. geometric_rebinning ext st = Inr st'
           \<and> array_sum (final st') = array_sum (final st)
           \<and> flux st' = Some (array_sum (final st))"
  using assms(5,1)
  unfolding geometric_rebinning_def Let_def array_div_Inr [OF assms(1)] bind_result_simps
    assms(2,3,4)
  by (simp add: array_div_Inr array_sum_times array_sum_divide)

text \<open>
  C6, as amended. Whatever the toggles \<open>rebinning\<close>, \<open>size_correction\<close> and \<open>fixed_grid\<close>
  are: when the sum of the working array is not zero, the scale factors are defined,
  the resampler returns an array, and the sum of that array is not zero either, the
  stage returns, and the sum of its output is the sum recorded before the stage.
\<close>

theorem geometric_rebinning_conserves_flux:
  assumes "array_sum (final st) \<noteq> 0"
    and "(if rebinning (config st) then rebinning_scale st else Inr 1) = Inr sf"
    and "(if size_correction (config st)
          then size_correction_of (redshift (target_frame st)) else Inr 1) = Inr scf"
    and "(if fixed_grid (config st)
          then zoom_contents (map_array (\<lambda>v. v / array_sum (final st)) (final st))
                 (sf * scf) False 0
          else zoom ext (map_array (\<lambda>v. v / array_sum (final st)) (final st)) (sf * scf))
         = Inr resampled"
    and "array_sum resampled \<noteq> 0"
  shows "\<exists>st'. geometric_rebinning ext st = Inr st'
           \<and> array_sum (final st') = array_sum (final st)
           \<and> flux st' = Some (array_sum (final st))"
  using assms by (rule geometric_rebinning_returns)

theorem geometric_rebinning_conserves_flux_witness:
  "array_sum (final (initial_state (NDArray 2 [[1, 2], [3, 4]]) (full (3, 3) 1) None
                      (frame_at 0) (frame_at 1) 0 None (all_disabled\<lparr>fixed_grid := True\<rparr>)))
     \<noteq> 0
   \<and> (\<exists>st'. geometric_rebinning stand_in
               (initial_state (NDArray 2 [[1, 2], [3, 4]]) (full (3, 3) 1) None
                  (frame_at 0) (frame_at 1) 0 None (all_disabled\<lparr>fixed_grid := True\<rparr>))
              = Inr st'
            \<and> array_sum (final st') = 10)"
proof -
  let ?st = "initial_state (NDArray 2 [[1, 2], [3, 4]]) (full (3, 3) 1) None
               (frame_at 0) (frame_at 1) 0 None (all_disabled\<lparr>fixed_grid := True\<rparr>)"
  let ?n = "map_array (\<lambda>v. v / array_sum (final ?st)) (final ?st)"
  have fin: "final ?st = NDArray 2 [[1, 2], [3, 4]]"
    by (simp add: initial_state_def)
  have total: "array_sum (final ?st) = 10"
    by (simp add: fin array_sum_def)
  have cfg: "\<not> rebinning (config ?st)" "\<not> size_correction (config ?st)" "fixed_grid (config ?st)"
    by (simp_all add: initial_state_def all_disabled_def default_Config_def)
  have h1: "array_sum (final ?st) \<noteq> 0" by (simp add: total)
  have h2: "(if rebinning (config ?st) then rebinning_scale ?st else Inr 1) = Inr 1"
    by (simp add: cfg)
  have h3: "(if size_correction (config ?st)
             then size_correction_of (redshift (target_frame ?st)) else Inr 1) = Inr 1"
    by (simp add: cfg)
  have z: "zoom_contents ?n 1 False 0 = Inr ?n"
    by (rule zoom_contents_scale_one)
       (simp_all add: fin well_shaped_def shape0_def shape1_def map_array_def)
  have h4: "(if fixed_grid (config ?st) then zoom_contents ?n (1 * 1) False 0
             else zoom stand_in ?n (1 * 1)) = Inr ?n"
    using z by (simp add: cfg)
  have h5: "array_sum ?n \<noteq> 0"
    by (simp add: array_sum_divide total)
  show ?thesis
    using geometric_rebinning_conserves_flux [OF h1 h2 h3 h4 h5] h1 total by auto
qed

text \<open>
  C6 as stated fails: a 2 by 2 image of ones has the sum 4, and with the size
  correction enabled at target redshift 1 the scale is \<open>2 powr (- 0.97)\<close>, below 1. On
  the fixed grid every output pixel then samples a point outside the image and gets the
  fill value 0; the stage divides by the sum 0 of the resampled array and has no
  real-valued output (numpy goes on with \<^verbatim>\<open>nan\<close>).
\<close>

theorem geometric_rebinning_loses_flux_counterexample:
  "array_sum (final (initial_state (full (2, 2) 1) (full (3, 3) 1) None (frame_at 0)
                      (frame_at 1) 0 None
                      (all_disabled\<lparr>size_correction := True, fixed_grid := True\<rparr>))) = 4
   \<and> geometric_rebinning stand_in
        (initial_state (full (2, 2) 1) (full (3, 3) 1) None (frame_at 0) (frame_at 1) 0 None
           (all_disabled\<lparr>size_correction := True, fixed_grid := True\<rparr>))
       = Inl (NonFinite ''rebinned /= rebinned.sum()'')"
proof -
  let ?s = "(2::real) powr (- 0.97)"
  have sc: "size_correction_of 1 = Inr ?s" "0 < ?s" "?s < 1"
    using size_correction_of_one_bounds by simp_all
  have z: "zoom_contents (map_array (\<lambda>v. v / 4) (full (2, 2) 1)) ?s False 0
             = Inr (NDArray 2 [[0, 0], [0, 0]])"
    by (rule zoom_contents_two_by_two_shrunk [OF sc(2,3)])
       (simp_all add: shape0_def shape1_def map_array_def full_def)
  have zero: "array_sum (NDArray 2 [[0, 0], [0, 0]]) = 0"
    by (simp add: array_sum_def)
  show ?thesis
    using z sc(1)
    by (simp add: geometric_rebinning_def Let_def initial_state_def all_disabled_def
        default_Config_def frame_at_def array_sum_ones array_div_def zero)
qed

subsection \<open>Disabled stages\<close>

lemma map_array_map_array: "map_array f (map_array g a) = map_array (\<lambda>v. f (g v)) a"
  by (simp add: map_array_def comp_def)

lemma tabulate_nth:
  assumes "well_shaped a"
  shows "tabulate (shape0 a, shape1 a) (\<lambda>i j. rows a ! i ! j) = a"
proof -
  have row: "map ((!) (rows a ! i)) [0..<ncols a] = rows a ! i" if "i < length (rows a)" for i
    using assms that map_nth [of "rows a ! i"]
    by (simp add: well_shaped_def list_all_length)
  have "map (\<lambda>i. map ((!) (rows a ! i)) [0..<ncols a]) [0..<length (rows a)]
          = map (\<lambda>i. rows a ! i) [0..<length (rows a)]"
    by (rule map_cong) (simp_all add: row)
  then show ?thesis
    by (cases a) (simp add: tabulate_def shape0_def shape1_def map_nth)
qed

lemma tabulate_cong:
  assumes "\<And>i j. i < n \<Longrightarrow> j < m \<Longrightarrow> f i j = g i j"
  shows "tabulate (n, m) f = tabulate (n, m) g"
  using assms by (simp add: tabulate_def)

lemma nearest_zoom_one:
  assumes "well_shaped a"
  shows "nearest_zoom a 1 = Inr a"
proof -
  have src: "(if n \<le> 1 then 0 else nat \<lfloor>real i * (real n - 1) / (real n - 1) + 1 / 2\<rfloor>) = i"
    if "i < n" for i n
  proof -
    have "\<lfloor>real i + 1 / 2\<rfloor> = int i" by linarith
    then show ?thesis using that by auto
  qed
  have "tabulate (shape0 a, shape1 a)
          (\<lambda>i j. rows a ! (if shape0 a \<le> 1 then 0
                           else nat \<lfloor>real i * (real (shape0 a) - 1) / (real (shape0 a) - 1) + 1 / 2\<rfloor>)
                         ! (if shape1 a \<le> 1 then 0
                           else nat \<lfloor>real j * (real (shape1 a) - 1) / (real (shape1 a) - 1) + 1 / 2\<rfloor>))
        = tabulate (shape0 a, shape1 a) (\<lambda>i j. rows a ! i ! j)"
  proof (rule tabulate_cong)
    fix i j assume "i < shape0 a" "j < shape1 a"
    then show "rows a ! (if shape0 a \<le> 1 then 0
                           else nat \<lfloor>real i * (real (shape0 a) - 1) / (real (shape0 a) - 1) + 1 / 2\<rfloor>)
                         ! (if shape1 a \<le> 1 then 0
                           else nat \<lfloor>real j * (real (shape1 a) - 1) / (real (shape1 a) - 1) + 1 / 2\<rfloor>)
               = rows a ! i ! j"
      by (simp only: src)
  qed
  then show ?thesis
    using tabulate_nth [OF assms] by (simp add: nearest_zoom_def Let_def)
qed

lemma geometric_rebinning_unit_scale:
  assumes off: "\<not> rebinning (config st)" "\<not> size_correction (config st)"
    and fl: "array_sum (final st) \<noteq> 0"
    and rs: "(if fixed_grid (config st)
              then zoom_contents (map_array (\<lambda>v. v / array_sum (final st)) (final st)) 1 False 0
              else zoom ext (map_array (\<lambda>v. v / array_sum (final st)) (final st)) 1)
             = Inr (map_array (\<lambda>v. v / array_sum (final st)) (final st))"
  shows "geometric_rebinning ext st
           = Inr (st\<lparr>scale_factor := Some 1, size_correction_factor := Some 1,
                    flux := Some (array_sum (final st)), rebinned := Some (final st),
                    final := final st\<rparr>)"
proof -
  let ?fl = "array_sum (final st)"
  let ?n = "map_array (\<lambda>v. v / ?fl) (final st)"
  have one: "array_sum ?n = 1" using fl by (simp add: array_sum_divide)
  have restore: "map_array (\<lambda>v. v * ?fl) (map_array (\<lambda>v. v / 1) ?n) = final st"
    using fl by (simp add: map_array_map_array map_array_id)
  have rs': "(if fixed_grid (config st) then zoom_contents ?n (1 * 1) False 0
              else zoom ext ?n (1 * 1)) = Inr ?n"
    using rs by (cases "fixed_grid (config st)") simp_all
  have "geometric_rebinning ext st
          = bind_result (array_div ''rebinned /= rebinned.sum()'' ?n (array_sum ?n))
              (\<lambda>unit. let out = map_array (\<lambda>v. v * ?fl) unit in
                 Inr (st\<lparr>scale_factor := Some 1, size_correction_factor := Some 1,
                         flux := Some ?fl, rebinned := Some out, final := out\<rparr>))"
    unfolding geometric_rebinning_def Let_def
    by (simp only: array_div_Inr [OF fl] bind_result_simps off if_False rs')
  then show ?thesis
    using restore by (simp add: array_div_def one Let_def)
qed

lemma final_crop_for_network [simp]: "final (crop_for_network sz st) = final st"
  by (simp add: crop_for_network_def Let_def)

lemma run_stages_all_disabled:
  assumes off: "\<not> make_cutout (config st)" "\<not> rebinning (config st)"
      "\<not> size_correction (config st)" "\<not> dimming (config st)" "\<not> evo (config st)"
      "\<not> convolve_with_psf (config st)" "\<not> shot_noise (config st)"
      "\<not> add_background_on (config st)"
    and fl: "array_sum (final st) \<noteq> 0"
    and rs: "(if fixed_grid (config st)
              then zoom_contents (map_array (\<lambda>v. v / array_sum (final st)) (final st)) 1 False 0
              else zoom ext (map_array (\<lambda>v. v / array_sum (final st)) (final st)) 1)
             = Inr (map_array (\<lambda>v. v / array_sum (final st)) (final st))"
  shows "\<exists>st'. run_stages ext st = Inr st' \<and> final st' = final st"
  unfolding run_stages_def
  using off
  by (simp add: cutout_source_def geometric_rebinning_unit_scale [OF off(2,3) fl rs]
      apply_dimming_def evolution_correction_def convolve_psf_def apply_shot_noise_def
      add_background_def)

lemma geometric_rebinning_zero_sum:
  "array_sum (final st) = 0 \<Longrightarrow> geometric_rebinning ext st = Inl (NonFinite ''final / flux'')"
  by (simp add: geometric_rebinning_def Let_def array_div_zero)

text \<open>
  C3, as amended. Six stages are gated as a whole: the cutout, the dimming, the
  evolution correction, the convolution, the shot noise and the background. Each, with
  its toggle disabled, returns the state as it was. The rebinning stage is not gated:
  it always normalises, resamples and rescales. With \<open>rebinning\<close> and \<open>size_correction\<close>
  disabled its scale is 1, and it leaves \<open>final\<close> as it was when the sum of \<open>final\<close> is not
  zero and the resampler at scale 1 returns its input. So with every toggle disabled, an
  image whose sum is not zero, and a nearest-neighbour resize that returns its input at
  scale 1, the constructor ends with \<open>final\<close> equal to the raw image.
\<close>

theorem disabled_stages_leave_final:
  "(\<not> make_cutout (config st) \<longrightarrow> cutout_source ext st = Inr st)
   \<and> (\<not> dimming (config st) \<longrightarrow> apply_dimming st = Inr st)
   \<and> (\<not> evo (config st) \<longrightarrow> evolution_correction st = Inr st)
   \<and> (\<not> convolve_with_psf (config st) \<longrightarrow> convolve_psf ext st = Inr st)
   \<and> (\<not> shot_noise (config st) \<longrightarrow> apply_shot_noise ext st = Inr st)
   \<and> (\<not> add_background_on (config st) \<longrightarrow> add_background ext st = Inr st)
   \<and> (\<not> rebinning (config st) \<and> \<not> size_correction (config st)
        \<and> array_sum (final st) \<noteq> 0
        \<and> (if fixed_grid (config st)
            then zoom_contents (map_array (\<lambda>v. v / array_sum (final st)) (final st)) 1 False 0
            else zoom ext (map_array (\<lambda>v. v / array_sum (final st)) (final st)) 1)
           = Inr (map_array (\<lambda>v. v / array_sum (final st)) (final st))
      \<longrightarrow> (\<exists>st'. geometric_rebinning ext st = Inr st' \<and> final st' = final st))
   \<and> (\<not> make_cutout cfg \<and> \<not> rebinning cfg \<and> \<not> size_correction cfg \<and> \<not> dimming cfg
        \<and> \<not> evo cfg \<and> \<not> convolve_with_psf cfg \<and> \<not> shot_noise cfg
        \<and> \<not> add_background_on cfg \<and> \<not> fixed_grid cfg
        \<and> array_sum img \<noteq> 0
        \<and> zoom ext (map_array (\<lambda>v. v / array_sum img) img) 1
            = Inr (map_array (\<lambda>v. v / array_sum img) img)
      \<longrightarrow> (\<exists>st'. ArtificialRedshift_init ext img psf0 bg initial target mag pos (Some cfg)
                     = Inr st'
                 \<and> final st' = img))"
proof (intro conjI impI)
  assume "\<not> rebinning (config st) \<and> \<not> size_correction (config st)
        \<and> array_sum (final st) \<noteq> 0
        \<and> (if fixed_grid (config st)
            then zoom_contents (map_array (\<lambda>v. v / array_sum (final st)) (final st)) 1 False 0
            else zoom ext (map_array (\<lambda>v. v / array_sum (final st)) (final st)) 1)
           = Inr (map_array (\<lambda>v. v / array_sum (final st)) (final st))"
  then show "\<exists>st'. geometric_rebinning ext st = Inr st' \<and> final st' = final st"
    using geometric_rebinning_unit_scale [of st ext] by auto
next
  let ?st = "initial_state img psf0 bg initial target mag pos cfg"
  assume a: "\<not> make_cutout cfg \<and> \<not> rebinning cfg \<and> \<not> size_correction cfg \<and> \<not> dimming cfg
        \<and> \<not> evo cfg \<and> \<not> convolve_with_psf cfg \<and> \<not> shot_noise cfg
        \<and> \<not> add_background_on cfg \<and> \<not> fixed_grid cfg
        \<and> array_sum img \<noteq> 0
        \<and> zoom ext (map_array (\<lambda>v. v / array_sum img) img) 1
            = Inr (map_array (\<lambda>v. v / array_sum img) img)"
  have c: "config ?st = cfg" and f: "final ?st = img"
    by (simp_all add: initial_state_def)
  have "\<exists>st'. run_stages ext ?st = Inr st' \<and> final st' = final ?st"
    by (rule run_stages_all_disabled) (use a in \<open>simp_all add: c f\<close>)
  then show "\<exists>st'. ArtificialRedshift_init ext img psf0 bg initial target mag pos (Some cfg)
                     = Inr st' \<and> final st' = img"
    by (simp add: ArtificialRedshift_init_def f)
qed (simp_all add: cutout_source_def apply_dimming_def evolution_correction_def
      convolve_psf_def apply_shot_noise_def add_background_def)

theorem disabled_stages_leave_final_witness:
  "cutout_source stand_in
     (initial_state (NDArray 2 [[1, 2], [3, 4]]) (full (3, 3) 1) None (frame_at 0) (frame_at 1)
        0 None all_disabled)
     = Inr (initial_state (NDArray 2 [[1, 2], [3, 4]]) (full (3, 3) 1) None (frame_at 0)
              (frame_at 1) 0 None all_disabled)
   \<and> (\<exists>st'. ArtificialRedshift_init stand_in (NDArray 2 [[1, 2], [3, 4]]) (full (3, 3) 1) None
               (frame_at 0) (frame_at 1) 0 None (Some all_disabled) = Inr st'
            \<and> final st' = NDArray 2 [[1, 2], [3, 4]])"
proof -
  let ?img = "NDArray 2 [[1, 2], [3, 4 :: real]]"
  let ?st = "initial_state ?img (full (3, 3) 1) None (frame_at 0) (frame_at 1) 0 None all_disabled"
  have cfg: "config ?st = all_disabled" by (simp add: initial_state_def)
  have off: "\<not> make_cutout all_disabled" "\<not> rebinning all_disabled"
    "\<not> size_correction all_disabled" "\<not> dimming all_disabled" "\<not> evo all_disabled"
    "\<not> convolve_with_psf all_disabled" "\<not> shot_noise all_disabled"
    "\<not> add_background_on all_disabled" "\<not> fixed_grid all_disabled"
    by (simp_all add: all_disabled_def)
  have total: "array_sum ?img \<noteq> 0" by (simp add: array_sum_def)
  have z: "zoom stand_in (map_array (\<lambda>v. v / array_sum ?img) ?img) 1
             = Inr (map_array (\<lambda>v. v / array_sum ?img) ?img)"
    using nearest_zoom_one [of "map_array (\<lambda>v. v / array_sum ?img) ?img"]
    by (simp add: stand_in_def well_shaped_def map_array_def)
  show ?thesis
    using disabled_stages_leave_final
            [of ?st stand_in all_disabled ?img "full (3, 3) 1" None "frame_at 0" "frame_at 1" 0 None]
          off total z
    by (simp add: cfg)
qed

text \<open>
  C3 as stated fails at the rebinning stage: with every toggle disabled and a blank
  2 by 2 image, whose sum is zero, the stage divides by zero and the constructor has no
  real-valued output (numpy goes on with an array of \<^verbatim>\<open>nan\<close>), so \<open>final\<close> is not the
  raw image.
\<close>

theorem all_disabled_blank_image_counterexample:
  "ArtificialRedshift_init stand_in (full (2, 2) 0) (full (3, 3) 1) None (frame_at 0)
     (frame_at 1) 0 None (Some all_disabled)
   = Inl (NonFinite ''final / flux'')"
proof -
  let ?st = "initial_state (full (2, 2) 0) (full (3, 3) 1) None (frame_at 0) (frame_at 1) 0 None
               all_disabled"
  have cfg: "\<not> make_cutout (config ?st)"
    by (simp add: initial_state_def all_disabled_def)
  have zero: "array_sum (final ?st) = 0"
    by (simp add: initial_state_def array_sum_full)
  show ?thesis
    unfolding ArtificialRedshift_init_def run_stages_def
    using cfg geometric_rebinning_zero_sum [OF zero, of stand_in]
    by (simp add: cutout_source_def)
qed

subsection \<open>A background smaller than the image\<close>

lemma find_bg_section_method_too_small:
  assumes "\<not> CENTER" and "bg_position st = None"
    and "shape0 bg < shape0 img \<or> shape1 bg < shape1 img"
  shows "find_bg_section_method ext st bg img CENTER
           = Inl (IndexError ''Galaxy Image larger than BG'')"
  using assms by (auto simp add: find_bg_section_method_def Let_def)

text \<open>
  C2, as amended. When the background toggle is enabled, \<open>bg_centered\<close> is disabled and
  no fixed position is configured, a supplied background that is smaller than the
  working image in at least one axis makes \<^verbatim>\<open>_find_bg_section\<close>, and with it the
  background stage, raise the IndexError \<^verbatim>\<open>Galaxy Image larger than BG\<close>.
\<close>

theorem add_background_rejects_small_background:
  assumes "add_background_on (config st)" and "\<not> bg_centered (config st)"
    and "bg_position st = None" and "background st = Some bg"
    and "scale_factor st = Some sf"
    and "shape0 bg < shape0 (final st) \<or> shape1 bg < shape1 (final st)"
  shows "find_bg_section_method ext st bg (final st) (bg_centered (config st))
           = Inl (IndexError ''Galaxy Image larger than BG'')
         \<and> add_background ext st = Inl (IndexError ''Galaxy Image larger than BG'')"
  using assms find_bg_section_method_too_small [of "bg_centered (config st)" st bg "final st" ext]
  by (simp add: add_background_def attr_def)


theorem add_background_rejects_small_background_witness:
  "shape0 (NDArray 2 [[0, 0], [0, 0 :: real]]) < shape0 (NDArray 3 [[1, 1, 1], [1, 1, 1], [1, 1, 1 :: real]])
   \<and> add_background stand_in
        ((initial_state (NDArray 3 [[1, 1, 1], [1, 1, 1], [1, 1, 1]]) (full (3, 3) 1)
            (Some (NDArray 2 [[0, 0], [0, 0]])) (frame_at 0) (frame_at 1) 0 None
            ((default_Config stand_in)\<lparr>bg_centered := False\<rparr>))\<lparr>scale_factor := Some 1\<rparr>)
       = Inl (IndexError ''Galaxy Image larger than BG'')"
proof -
  let ?bg = "NDArray 2 [[0, 0], [0, 0 :: real]]"
  let ?st = "(initial_state (NDArray 3 [[1, 1, 1], [1, 1, 1], [1, 1, 1]]) (full (3, 3) 1)
            (Some ?bg) (frame_at 0) (frame_at 1) 0 None
            ((default_Config stand_in)\<lparr>bg_centered := False\<rparr>))\<lparr>scale_factor := Some 1\<rparr>"
  have h: "add_background_on (config ?st)" "\<not> bg_centered (config ?st)"
    "bg_position ?st = None" "background ?st = Some ?bg" "scale_factor ?st = Some 1"
    by (simp_all add: initial_state_def default_Config_def)
  have small: "shape0 ?bg < shape0 (final ?st) \<or> shape1 ?bg < shape1 (final ?st)"
    by (simp add: initial_state_def shape0_def)
  show ?thesis
    using add_background_rejects_small_background [OF h small, of stand_in]
    by (simp add: shape0_def)
qed

text \<open>
  C2 as stated fails with \<open>bg_centered\<close> enabled, the default: the centred branch of
  \<^verbatim>\<open>_find_bg_section\<close> has no size check. For a 2 by 2 background and a 3 by 3 image it
  returns the whole background as the section, and the stage then fails in the in-place
  addition with numpy's broadcasting ValueError, not with the IndexError. The standalone
  sampler raises NameError on the same arrays.
\<close>

theorem centred_background_counterexample:
  "find_bg_section_method stand_in
     ((initial_state (NDArray 3 [[1, 1, 1], [1, 1, 1], [1, 1, 1]]) (full (3, 3) 1)
         (Some (NDArray 2 [[0, 0], [0, 0]])) (frame_at 0) (frame_at 1) 0 None
         (default_Config stand_in))\<lparr>scale_factor := Some 1\<rparr>)
     (NDArray 2 [[0, 0], [0, 0]]) (NDArray 3 [[1, 1, 1], [1, 1, 1], [1, 1, 1]]) True
     = Inr (NDArray 2 [[0, 0], [0, 0]])
   \<and> add_background stand_in
        ((initial_state (NDArray 3 [[1, 1, 1], [1, 1, 1], [1, 1, 1]]) (full (3, 3) 1)
            (Some (NDArray 2 [[0, 0], [0, 0]])) (frame_at 0) (frame_at 1) 0 None
            (default_Config stand_in))\<lparr>scale_factor := Some 1\<rparr>)
       = Inl (ValueError ''operands could not be broadcast together'')
   \<and> find_bg_section background_globals 0 0 (NDArray 2 [[0, 0], [0, 0]])
        (NDArray 3 [[1, 1, 1], [1, 1, 1], [1, 1, 1]])
       = Inl (NameError ''random_flips'')"
proof -
  let ?bg = "NDArray 2 [[0, 0], [0, 0 :: real]]"
  let ?img = "NDArray 3 [[1, 1, 1], [1, 1, 1], [1, 1, 1 :: real]]"
  let ?st = "(initial_state ?img (full (3, 3) 1) (Some ?bg) (frame_at 0) (frame_at 1) 0 None
               (default_Config stand_in))\<lparr>scale_factor := Some 1\<rparr>"
  have sec: "find_bg_section_method stand_in ?st ?bg ?img True = Inr ?bg"
    by (simp add: find_bg_section_method_def Let_def shape0_def shape1_def py_int_def
        slice2_def py_slice_def slice_start_def slice_len_def)
  have st: "add_background_on (config ?st)" "bg_centered (config ?st)"
    "background ?st = Some ?bg" "scale_factor ?st = Some 1" "final ?st = ?img"
    by (simp_all add: initial_state_def default_Config_def)
  have add: "iadd_slice 0 3 0 3 ?bg ?img = Inl (ValueError ''operands could not be broadcast together'')"
    by (simp add: iadd_slice_def Let_def shape0_def shape1_def slice_len_def slice_start_def)
  have offs: "py_int (real (shape0 ?bg) / 2) = 1" "\<lfloor>real (shape0 ?img) / 2\<rfloor> = 1"
    by (simp_all add: py_int_def shape0_def)
  have bgs: "add_background stand_in ?st = Inl (ValueError ''operands could not be broadcast together'')"
    unfolding add_background_def Let_def
    by (simp only: st if_True attr_def option.case bind_result_simps sec offs)
       (simp add: add shape0_def py_int_def)
  have r: "resolve [''bg'' \<mapsto> Data, ''img'' \<mapsto> Data] background_globals ''random_flips''
             = Inl (NameError ''random_flips'')"
    by (rule resolve_unbound) (simp_all add: background_globals_random_flips)
  have nm: "find_bg_section background_globals 0 0 ?bg ?img = Inl (NameError ''random_flips'')"
    unfolding find_bg_section_def r by simp
  show ?thesis using sec bgs nm by simp
qed

subsection \<open>The rejection loop of the survey sampler\<close>

lemma search_goodss_accepted:
  assumes "search_goodss sv offset draws = Some (Inr (bg, coord))"
  shows "Cutout2D sv coord offset = Inr bg
         \<and> \<not> aperture_rejects
               (aperture_sum sv bg (real_of_int offset / 2, real_of_int offset / 2)
                  (real_of_int offset / 3))
               (array_sum bg
                  - aperture_sum sv bg (real_of_int offset / 2, real_of_int offset / 2)
                      (real_of_int offset / 3))"
  using assms
proof (induction draws)
  case Nil
  then show ?case by simp
next
  case (Cons d draws)
  obtain raw_x raw_y where d: "d = (raw_x, raw_y)" by (cases d)
  show ?case
    using Cons.prems Cons.IH unfolding d
    by (auto simp add: Let_def split: sum.splits if_splits)
qed

lemma rejected_candidate_draws_again:
  assumes "randint offset (int (mosaic_shape0 sv) - offset) raw_x = Inr x_c"
    and "randint offset (int (mosaic_shape0 sv) - offset) raw_y = Inr y_c"
    and "Cutout2D sv (wcs_pix2world sv x_c y_c) offset = Inr bg160"
    and "separation sv (wcs_pix2world sv x_c y_c) \<noteq> []"
    and "aperture_rejects
           (aperture_sum sv bg160 (real_of_int offset / 2, real_of_int offset / 2)
              (real_of_int offset / 3))
           (array_sum bg160
              - aperture_sum sv bg160 (real_of_int offset / 2, real_of_int offset / 2)
                  (real_of_int offset / 3))"
  shows "search_goodss sv offset ((raw_x, raw_y) # draws) = search_goodss sv offset draws"
  using assms
  by (cases "separation sv (wcs_pix2world sv x_c y_c)") (simp_all add: Let_def)

lemma pixels_within_faint: "pixels_within faint_patch (2, 2) (4 / 3) = - 1"
  by (simp add: pixels_within_def faint_patch_def power2_eq_square)

lemma pixels_within_quiet: "pixels_within quiet_patch (2, 2) (4 / 3) = 1 / 2"
  by (simp add: pixels_within_def quiet_patch_def power2_eq_square)

lemma pixels_within_bright: "pixels_within bright_patch (2, 2) (4 / 3) = 25"
  by (simp add: pixels_within_def bright_patch_def power2_eq_square)

lemma array_sum_patches:
  "array_sum faint_patch = 9 / 2" "array_sum quiet_patch = 8 / 5" "array_sum bright_patch = 80"
  by (simp_all add: array_sum_def faint_patch_def quiet_patch_def bright_patch_def)

lemma shape_patches:
  "shape0 faint_patch = 4" "shape1 faint_patch = 4" "shape0 quiet_patch = 4" "shape1 quiet_patch = 4"
  "shape0 bright_patch = 4" "shape1 bright_patch = 4"
  by (simp_all add: shape0_def shape1_def faint_patch_def quiet_patch_def bright_patch_def)


text \<open>
  C5, as amended. In the search without a sky coordinate, a candidate whose aperture sum
  is exactly zero, or exceeds 20, or exceeds the light outside the aperture is rejected:
  the loop goes on to the next draw. And the cutout that the search returns is the
  cutout at the returned coordinate, and its aperture sum passes that test.
\<close>

theorem search_goodss_rejects_on_aperture_sum:
  "(search_goodss sv offset draws = Some (Inr (bg, coord))
      \<longrightarrow> Cutout2D sv coord offset = Inr bg
          \<and> \<not> aperture_rejects
                (aperture_sum sv bg (real_of_int offset / 2, real_of_int offset / 2)
                   (real_of_int offset / 3))
                (array_sum bg
                   - aperture_sum sv bg (real_of_int offset / 2, real_of_int offset / 2)
                       (real_of_int offset / 3)))
   \<and> (randint offset (int (mosaic_shape0 sv) - offset) raw_x = Inr x_c
        \<and> randint offset (int (mosaic_shape0 sv) - offset) raw_y = Inr y_c
        \<and> Cutout2D sv (wcs_pix2world sv x_c y_c) offset = Inr bg160
        \<and> separation sv (wcs_pix2world sv x_c y_c) \<noteq> []
        \<and> aperture_rejects
             (aperture_sum sv bg160 (real_of_int offset / 2, real_of_int offset / 2)
                (real_of_int offset / 3))
             (array_sum bg160
                - aperture_sum sv bg160 (real_of_int offset / 2, real_of_int offset / 2)
                    (real_of_int offset / 3))
      \<longrightarrow> search_goodss sv offset ((raw_x, raw_y) # rest) = search_goodss sv offset rest)"
  using search_goodss_accepted [of sv offset draws bg coord]
    rejected_candidate_draws_again [of offset sv raw_x x_c raw_y y_c bg160 rest]
  by blast

theorem search_goodss_rejects_on_aperture_sum_witness:
  "search_goodss (sky_patch quiet_patch) 4 [(0, 0)] = Some (Inr (quiet_patch, (4, 4)))
   \<and> \<not> aperture_rejects (pixels_within quiet_patch (2, 2) (4 / 3))
          (array_sum quiet_patch - pixels_within quiet_patch (2, 2) (4 / 3))
   \<and> aperture_rejects (pixels_within bright_patch (2, 2) (4 / 3))
        (array_sum bright_patch - pixels_within bright_patch (2, 2) (4 / 3))
   \<and> search_goodss (sky_patch bright_patch) 4 [(0, 0), (1, 1)]
       = search_goodss (sky_patch bright_patch) 4 [(1, 1)]"
proof -
  have q: "search_goodss (sky_patch quiet_patch) 4 [(0, 0)] = Some (Inr (quiet_patch, (4, 4)))"
    by (simp add: sky_patch_def randint_def Let_def shape_patches pixels_within_quiet
        array_sum_patches aperture_rejects_def)
  have b: "aperture_rejects (pixels_within bright_patch (2, 2) (4 / 3))
             (array_sum bright_patch - pixels_within bright_patch (2, 2) (4 / 3))"
    by (simp add: aperture_rejects_def pixels_within_bright)
  have "\<not> aperture_rejects (pixels_within quiet_patch (2, 2) (4 / 3))
          (array_sum quiet_patch - pixels_within quiet_patch (2, 2) (4 / 3))"
    using q search_goodss_rejects_on_aperture_sum
            [of "sky_patch quiet_patch" 4 "[(0, 0)]" quiet_patch "(4, 4)"]
    by (simp add: sky_patch_def)
  moreover have "search_goodss (sky_patch bright_patch) 4 [(0, 0), (1, 1)]
                   = search_goodss (sky_patch bright_patch) 4 [(1, 1)]"
    using b search_goodss_rejects_on_aperture_sum
            [of "sky_patch bright_patch" 4 _ _ _ 0 4 0 4 bright_patch "[(1, 1)]"]
    by (simp add: sky_patch_def randint_def shape_patches)
  ultimately show ?thesis using q b by simp
qed

text \<open>
  C5 as stated fails for a negative aperture sum: the test of the loop is
  \<^verbatim>\<open>LT == 0\<close>, not \<^verbatim>\<open>LT <= 0\<close>. The patch below has the aperture sum \<open>- 1\<close> and the
  light \<open>5.5\<close> outside the aperture, passes the three tests, and is returned.
\<close>

theorem negative_aperture_sum_accepted_counterexample:
  "pixels_within faint_patch (2, 2) (4 / 3) = - 1
   \<and> search_goodss (sky_patch faint_patch) 4 [(0, 0)] = Some (Inr (faint_patch, (4, 4)))"
  by (simp add: sky_patch_def randint_def Let_def shape_patches pixels_within_faint
      array_sum_patches aperture_rejects_def)

subsection \<open>The header of the output file\<close>

lemma bind_result_InrE:
  assumes "bind_result m f = Inr y"
  obtains x where "m = Inr x" and "f x = Inr y"
  using assms by (cases m) simp_all

lemma cutout_source_fields:
  assumes "cutout_source ext st = Inr st'"
  shows "provenance st' = provenance st \<and> scale_factor st' = scale_factor st
         \<and> size_correction_factor st' = size_correction_factor st
         \<and> dimming_factor st' = dimming_factor st \<and> evo_factor st' = evo_factor st"
proof (cases "make_cutout (config st)")
  case True
  with assms show ?thesis
    unfolding cutout_source_def Let_def if_P [OF True]
    by (elim bind_result_InrE) (auto simp add: provenance_def)
next
  case False
  with assms show ?thesis
    by (auto simp add: cutout_source_def provenance_def)
qed

lemma geometric_rebinning_fields:
  assumes "geometric_rebinning ext st = Inr st'"
  shows "provenance st' = provenance st
         \<and> (\<exists>sf. scale_factor st' = Some sf
                \<and> (if rebinning (config st) then rebinning_scale st = Inr sf else sf = 1))
         \<and> (\<exists>scf. size_correction_factor st' = Some scf
                \<and> (if size_correction (config st)
                    then size_correction_of (redshift (target_frame st)) = Inr scf
                    else scf = 1))
         \<and> dimming_factor st' = dimming_factor st \<and> evo_factor st' = evo_factor st"
  using assms unfolding geometric_rebinning_def Let_def
  by (elim bind_result_InrE) (auto simp add: provenance_def)

lemma apply_dimming_fields:
  assumes "apply_dimming st = Inr st'"
  shows "provenance st' = provenance st \<and> scale_factor st' = scale_factor st
         \<and> size_correction_factor st' = size_correction_factor st
         \<and> (if dimming (config st)
             then \<exists>ratio. float_div ''dimming_factor''
                             (cosmo (config st) (redshift (initial_frame st)))
                             (cosmo (config st) (redshift (target_frame st))) = Inr ratio
                          \<and> dimming_factor st' = Some (ratio\<^sup>2)
             else dimming_factor st' = dimming_factor st)
         \<and> evo_factor st' = evo_factor st"
proof (cases "dimming (config st)")
  case True
  with assms show ?thesis
    unfolding apply_dimming_def Let_def if_P [OF True]
    by (elim bind_result_InrE) (auto simp add: provenance_def)
next
  case False
  with assms show ?thesis
    by (auto simp add: apply_dimming_def provenance_def)
qed

lemma evolution_correction_fields:
  assumes "evolution_correction st = Inr st'"
  shows "provenance st' = provenance st \<and> scale_factor st' = scale_factor st
         \<and> size_correction_factor st' = size_correction_factor st
         \<and> dimming_factor st' = dimming_factor st
         \<and> (if evo (config st)
             then \<exists>p. py_pow (1 + redshift (target_frame st)) (evo_alpha (config st)) = Inr p
                      \<and> evo_factor st' = Some (10 powr (- 0.4 * (MAG st - MAG st * p)))
             else evo_factor st' = evo_factor st)"
proof (cases "evo (config st)")
  case True
  with assms show ?thesis
    unfolding evolution_correction_def Let_def if_P [OF True]
    by (elim bind_result_InrE) (auto simp add: provenance_def)
next
  case False
  with assms show ?thesis
    by (auto simp add: evolution_correction_def provenance_def)
qed

lemma convolve_psf_fields:
  assumes "convolve_psf ext st = Inr st'"
  shows "provenance st' = provenance st \<and> scale_factor st' = scale_factor st
         \<and> size_correction_factor st' = size_correction_factor st
         \<and> dimming_factor st' = dimming_factor st \<and> evo_factor st' = evo_factor st"
proof (cases "convolve_with_psf (config st)")
  case True
  with assms show ?thesis
    unfolding convolve_psf_def Let_def if_P [OF True]
    by (elim bind_result_InrE) (auto simp add: provenance_def)
next
  case False
  with assms show ?thesis
    by (auto simp add: convolve_psf_def provenance_def)
qed

lemma apply_shot_noise_fields:
  assumes "apply_shot_noise ext st = Inr st'"
  shows "provenance st' = provenance st \<and> scale_factor st' = scale_factor st
         \<and> size_correction_factor st' = size_correction_factor st
         \<and> dimming_factor st' = dimming_factor st \<and> evo_factor st' = evo_factor st"
proof (cases "shot_noise (config st)")
  case True
  with assms show ?thesis
    unfolding apply_shot_noise_def Let_def if_P [OF True]
    by (elim bind_result_InrE) (auto simp add: provenance_def)
next
  case False
  with assms show ?thesis
    by (auto simp add: apply_shot_noise_def provenance_def)
qed

lemma add_background_fields:
  assumes "add_background ext st = Inr st'"
  shows "provenance st' = provenance st \<and> scale_factor st' = scale_factor st
         \<and> size_correction_factor st' = size_correction_factor st
         \<and> dimming_factor st' = dimming_factor st \<and> evo_factor st' = evo_factor st"
proof (cases "add_background_on (config st)")
  case True
  with assms show ?thesis
    unfolding add_background_def Let_def if_P [OF True]
    by (elim bind_result_InrE) (auto simp add: provenance_def)
next
  case False
  with assms show ?thesis
    by (auto simp add: add_background_def provenance_def)
qed

lemma crop_for_network_fields:
  "provenance (crop_for_network sz st) = provenance st
   \<and> scale_factor (crop_for_network sz st) = scale_factor st
   \<and> size_correction_factor (crop_for_network sz st) = size_correction_factor st
   \<and> dimming_factor (crop_for_network sz st) = dimming_factor st
   \<and> evo_factor (crop_for_network sz st) = evo_factor st"
  by (simp add: crop_for_network_def Let_def provenance_def)


lemma provenance_eqD:
  assumes "provenance a = provenance b"
  shows "config a = config b" "initial_frame a = initial_frame b"
    "target_frame a = target_frame b" "MAG a = MAG b"
  using assms by (simp_all add: provenance_def)

lemma rebinning_scale_provenance:
  "provenance a = provenance b \<Longrightarrow> rebinning_scale a = rebinning_scale b"
  by (simp add: rebinning_scale_def provenance_def)

lemma run_stages_fields:
  assumes "run_stages ext st0 = Inr st"
  shows "provenance st = provenance st0
         \<and> (\<exists>sf. scale_factor st = Some sf
                \<and> (if rebinning (config st0) then rebinning_scale st0 = Inr sf else sf = 1))
         \<and> (\<exists>scf. size_correction_factor st = Some scf
                \<and> (if size_correction (config st0)
                    then size_correction_of (redshift (target_frame st0)) = Inr scf
                    else scf = 1))
         \<and> (dimming (config st0) \<longrightarrow>
              (\<exists>ratio. float_div ''dimming_factor''
                           (cosmo (config st0) (redshift (initial_frame st0)))
                           (cosmo (config st0) (redshift (target_frame st0))) = Inr ratio
                      \<and> dimming_factor st = Some (ratio\<^sup>2)))
         \<and> (evo (config st0) \<longrightarrow>
              (\<exists>p. py_pow (1 + redshift (target_frame st0)) (evo_alpha (config st0)) = Inr p
                  \<and> evo_factor st = Some (10 powr (- 0.4 * (MAG st0 - MAG st0 * p)))))"
proof -
  from assms obtain st1 st2 st3 st4 st5 st6 st7 where
    s1: "cutout_source ext st0 = Inr st1" and s2: "geometric_rebinning ext st1 = Inr st2"
    and s3: "apply_dimming st2 = Inr st3" and s4: "evolution_correction st3 = Inr st4"
    and s5: "convolve_psf ext st4 = Inr st5" and s6: "apply_shot_noise ext st5 = Inr st6"
    and s7: "add_background ext st6 = Inr st7"
    and s8: "st = crop_for_network (output_size (config st7)) st7"
    unfolding run_stages_def by (elim bind_result_InrE) auto
  note f1 = cutout_source_fields [OF s1] and f2 = geometric_rebinning_fields [OF s2]
    and f3 = apply_dimming_fields [OF s3] and f4 = evolution_correction_fields [OF s4]
    and f5 = convolve_psf_fields [OF s5] and f6 = apply_shot_noise_fields [OF s6]
    and f7 = add_background_fields [OF s7]
    and f8 = crop_for_network_fields [of "output_size (config st7)" st7]
  have p1: "provenance st1 = provenance st0" using f1 by simp
  have p2: "provenance st2 = provenance st0" using f2 p1 by simp
  have p3: "provenance st3 = provenance st0" using f3 p2 by simp
  have p4: "provenance st4 = provenance st0" using f4 p3 by simp
  have p: "provenance st = provenance st0" using f5 f6 f7 f8 p4 s8 by simp
  have sc: "scale_factor st = scale_factor st2" using f3 f4 f5 f6 f7 f8 s8 by simp
  have sz: "size_correction_factor st = size_correction_factor st2"
    using f3 f4 f5 f6 f7 f8 s8 by simp
  have a': "\<exists>scf. size_correction_factor st = Some scf
                \<and> (if size_correction (config st0)
                    then size_correction_of (redshift (target_frame st0)) = Inr scf
                    else scf = 1)"
    using f2 unfolding sz provenance_eqD [OF p1] by blast
  have dm: "dimming_factor st = dimming_factor st3" using f4 f5 f6 f7 f8 s8 by simp
  have ev: "evo_factor st = evo_factor st4" using f5 f6 f7 f8 s8 by simp
  have a: "\<exists>sf. scale_factor st = Some sf
                \<and> (if rebinning (config st0) then rebinning_scale st0 = Inr sf else sf = 1)"
    using f2 unfolding sc rebinning_scale_provenance [OF p1] provenance_eqD(1) [OF p1] by blast
  have b: "dimming (config st0) \<longrightarrow>
              (\<exists>ratio. float_div ''dimming_factor''
                           (cosmo (config st0) (redshift (initial_frame st0)))
                           (cosmo (config st0) (redshift (target_frame st0))) = Inr ratio
                      \<and> dimming_factor st = Some (ratio\<^sup>2))"
    using f3 unfolding dm provenance_eqD [OF p2] by auto
  have c: "evo (config st0) \<longrightarrow>
              (\<exists>p. py_pow (1 + redshift (target_frame st0)) (evo_alpha (config st0)) = Inr p
                  \<and> evo_factor st = Some (10 powr (- 0.4 * (MAG st0 - MAG st0 * p))))"
    using f4 unfolding ev provenance_eqD [OF p3] by auto
  show ?thesis using p a a' b c by blast
qed

lemma map_of_header_keys:
  assumes "k \<noteq> ''HISTORY''"
  shows "map_of (hdr @ [(''HISTORY'', a), (''HISTORY'', b), (''HISTORY'', c), (''HISTORY'', d),
                        (''HISTORY'', e)]) k = map_of hdr k"
  using assms by (simp add: map_add_def split: option.split)

lemma writeto_header:
  assumes "rebinning (config st) \<longrightarrow> scale_factor st = Some sf"
    and "dimming (config st) \<longrightarrow> dimming_factor st = Some df"
    and "evo (config st) \<longrightarrow> evo_factor st = Some ef"
    and "overwrite \<or> \<not> present filepath"
  shows "\<exists>f. writeto present st filepath data overwrite = Inr f
           \<and> path f = filepath \<and> payload f = data
           \<and> map_of (header f) ''REBIN'' = (if rebinning (config st) then Some (Float sf) else None)
           \<and> map_of (header f) ''DIM_FACT'' = (if dimming (config st) then Some (Float df) else None)
           \<and> map_of (header f) ''EVO_FACT'' = (if evo (config st) then Some (Float ef) else None)
           \<and> map_of (header f) ''EV_ALPHA''
               = (if evo (config st) then Some (Float (evo_alpha (config st))) else None)"
  using assms
  by (cases "rebinning (config st)"; cases "dimming (config st)"; cases "evo (config st)")
     (auto simp add: writeto_def attr_def Let_def map_of_header_keys update_conv')


lemma apply_dimming_returns:
  "cosmo (config st) (redshift (target_frame st)) \<noteq> 0 \<Longrightarrow> \<exists>st'. apply_dimming st = Inr st'"
  by (simp add: apply_dimming_def float_div_def Let_def)

lemma evolution_correction_returns:
  "0 < 1 + redshift (target_frame st) \<Longrightarrow> \<exists>st'. evolution_correction st = Inr st'"
  by (simp add: evolution_correction_def py_pow_def Let_def)

lemma run_stages_returns:
  assumes off: "\<not> make_cutout (config st)" "\<not> convolve_with_psf (config st)"
      "\<not> shot_noise (config st)" "\<not> add_background_on (config st)"
    and g: "geometric_rebinning ext st = Inr st2"
    and d: "cosmo (config st) (redshift (target_frame st)) \<noteq> 0"
    and e: "0 < 1 + redshift (target_frame st)"
  shows "\<exists>st'. run_stages ext st = Inr st'"
proof -
  have p2: "provenance st2 = provenance st"
    using geometric_rebinning_fields [OF g] by simp
  obtain st3 where s3: "apply_dimming st2 = Inr st3"
    using apply_dimming_returns [of st2] d unfolding provenance_eqD [OF p2] by blast
  have p3: "provenance st3 = provenance st"
    using apply_dimming_fields [OF s3] p2 by simp
  obtain st4 where s4: "evolution_correction st3 = Inr st4"
    using evolution_correction_returns [of st3] e unfolding provenance_eqD [OF p3] by blast
  have p4: "provenance st4 = provenance st"
    using evolution_correction_fields [OF s4] p3 by simp
  have c4: "config st4 = config st" using provenance_eqD(1) [OF p4] .
  show ?thesis
    unfolding run_stages_def
    using off g s3 s4
    by (simp add: cutout_source_def convolve_psf_def apply_shot_noise_def add_background_def c4)
qed

lemma hubble_one: "hubble_distance 70 (3 / 10) (109 / 40) 1 \<noteq> 0"
  by (simp add: hubble_distance_def)

lemma frame_at_sel:
  "redshift (frame_at z) = z" "pixelscale (frame_at z) = 0.06" "exptime (frame_at z) = 1000"
  by (simp_all add: frame_at_def)

lemma cosmo_all_disabled:
  "cosmo all_disabled = hubble_distance 70 (3 / 10) (109 / 40)"
  by (simp add: all_disabled_def default_Config_def stand_in_def)

lemma in_coords_three: "in_coords 3 = [- 1, 0, 1]"
  by (simp add: in_coords_def numeral_3_eq_3)

lemma zoom_contents_three_by_three_shrunk:
  assumes s: "0 < s" "s < 1" and sh: "shape0 a = 3" "shape1 a = 3"
  shows "zoom_contents a s False fill
           = Inr (NDArray 3 [[fill, fill, fill], [fill, rows a ! 1 ! 1, fill], [fill, fill, fill]])"
proof -
  have lo: "- 1 / s < - 1" using s by (simp add: field_simps)
  have hi: "1 < 1 / s" using s by (simp add: field_simps)
  have oob: "out_of_bounds [- 1, 0, 1] (- 1 / s)" "out_of_bounds [- 1, 0, 1] (1 / s)"
    "\<not> out_of_bounds [- 1, 0, 1] 0"
    using lo hi by (simp_all add: out_of_bounds_def)
  have centre: "evaluate_linear [- 1, 0, 1] [- 1, 0, 1] a (0, 0) = rows a ! 1 ! 1"
    by (simp add: evaluate_linear_def find_index_def norm_distance_def searchsorted_def Let_def
        py_nth_def)
  show ?thesis
    using s oob centre
    by (simp add: zoom_contents_def sh in_coords_three interpn_def out_coords_def map_array_def)
qed

lemma writeto_header_after_run:
  assumes run: "ArtificialRedshift_init ext img psf0 bg initial target mag pos cfg_opt = Inr st"
    and cfg: "cfg = (case cfg_opt of None \<Rightarrow> default_Config ext | Some c \<Rightarrow> c)"
    and free: "overwrite \<or> \<not> present filepath"
  shows "\<exists>f. writeto present st filepath data overwrite = Inr f
           \<and> path f = filepath \<and> payload f = data
           \<and> map_of (header f) ''REBIN''
               = (if rebinning cfg
                  then Some (Float (cosmo cfg (redshift initial) * (1 + redshift target)\<^sup>2
                                      * pixelscale initial
                                    / (cosmo cfg (redshift target) * (1 + redshift initial)\<^sup>2
                                       * pixelscale target)))
                  else None)
           \<and> map_of (header f) ''DIM_FACT''
               = (if dimming cfg
                  then Some (Float ((cosmo cfg (redshift initial)
                                     / cosmo cfg (redshift target))\<^sup>2))
                  else None)
           \<and> map_of (header f) ''EVO_FACT''
               = (if evo cfg
                  then Some (Float (10 powr (- 0.4 * (mag - mag * (1 + redshift target)
                                                                  powr evo_alpha cfg))))
                  else None)
           \<and> map_of (header f) ''EV_ALPHA''
               = (if evo cfg then Some (Float (evo_alpha cfg)) else None)"
proof -
  let ?st0 = "initial_state img psf0 bg initial target mag pos cfg"
  have r: "run_stages ext ?st0 = Inr st"
    using run by (simp add: ArtificialRedshift_init_def cfg)
  have st0: "config ?st0 = cfg" "initial_frame ?st0 = initial" "target_frame ?st0 = target"
    "MAG ?st0 = mag"
    by (simp_all add: initial_state_def)
  note f = run_stages_fields [OF r, unfolded st0]
  have c: "config st = cfg" using f provenance_eqD(1) [of st ?st0] st0 by simp
  have a: "rebinning (config st) \<longrightarrow>
             scale_factor st = Some (cosmo cfg (redshift initial) * (1 + redshift target)\<^sup>2
                                      * pixelscale initial
                                    / (cosmo cfg (redshift target) * (1 + redshift initial)\<^sup>2
                                       * pixelscale target))"
    using f unfolding c
    by (auto simp add: rebinning_scale_def st0 float_div_def Let_def split: if_splits)
  have b: "dimming (config st) \<longrightarrow>
             dimming_factor st = Some ((cosmo cfg (redshift initial)
                                        / cosmo cfg (redshift target))\<^sup>2)"
    using f unfolding c by (auto simp add: float_div_def split: if_splits)
  have e: "evo (config st) \<longrightarrow>
             evo_factor st = Some (10 powr (- 0.4 * (mag - mag * (1 + redshift target)
                                                                  powr evo_alpha cfg)))"
    using f unfolding c by (auto simp add: py_pow_def split: if_splits)
  show ?thesis
    using writeto_header [where present = present and filepath = filepath, OF a b e free, of data]
    unfolding c by simp
qed

text \<open>
  C4, as amended. For a pipeline object whose factors are finite, \<^verbatim>\<open>writeto\<close> on a path
  that is free (or with overwrite) writes a header in which \<open>REBIN\<close> is the attribute
  \<^verbatim>\<open>scale_factor\<close>, \<open>DIM_FACT\<close> the attribute \<^verbatim>\<open>dimming_factor\<close>, \<open>EVO_FACT\<close> the attribute
  \<^verbatim>\<open>evo_factor\<close> and \<open>EV_ALPHA\<close> the configured exponent; each key is there when its toggle
  is enabled and absent otherwise. And after a run of the constructor that returns in
  the model, that is a run without an exception and without a float division by zero,
  these are the geometric scale factor alone, without the size correction, the dimming
  multiplier and the evolution multiplier. A run with a target at luminosity distance
  zero, which the Python completes with \<^verbatim>\<open>inf\<close> as scale factor, is not covered.
\<close>

theorem writeto_header_matches_factors:
  "((rebinning (config s) \<longrightarrow> scale_factor s = Some sf)
      \<and> (dimming (config s) \<longrightarrow> dimming_factor s = Some df)
      \<and> (evo (config s) \<longrightarrow> evo_factor s = Some ef)
      \<and> (overwrite \<or> \<not> present filepath)
    \<longrightarrow> (\<exists>f. writeto present s filepath data overwrite = Inr f
           \<and> path f = filepath \<and> payload f = data
           \<and> map_of (header f) ''REBIN'' = (if rebinning (config s) then Some (Float sf) else None)
           \<and> map_of (header f) ''DIM_FACT'' = (if dimming (config s) then Some (Float df) else None)
           \<and> map_of (header f) ''EVO_FACT'' = (if evo (config s) then Some (Float ef) else None)
           \<and> map_of (header f) ''EV_ALPHA''
               = (if evo (config s) then Some (Float (evo_alpha (config s))) else None)))
   \<and> (ArtificialRedshift_init ext img psf0 bg initial target mag pos cfg_opt = Inr st
      \<and> cfg = (case cfg_opt of None \<Rightarrow> default_Config ext | Some c \<Rightarrow> c)
      \<and> (overwrite \<or> \<not> present filepath)
    \<longrightarrow> (\<exists>f. writeto present st filepath data overwrite = Inr f
           \<and> path f = filepath \<and> payload f = data
           \<and> map_of (header f) ''REBIN''
               = (if rebinning cfg
                  then Some (Float (cosmo cfg (redshift initial) * (1 + redshift target)\<^sup>2
                                      * pixelscale initial
                                    / (cosmo cfg (redshift target) * (1 + redshift initial)\<^sup>2
                                       * pixelscale target)))
                  else None)
           \<and> map_of (header f) ''DIM_FACT''
               = (if dimming cfg
                  then Some (Float ((cosmo cfg (redshift initial)
                                     / cosmo cfg (redshift target))\<^sup>2))
                  else None)
           \<and> map_of (header f) ''EVO_FACT''
               = (if evo cfg
                  then Some (Float (10 powr (- 0.4 * (mag - mag * (1 + redshift target)
                                                                  powr evo_alpha cfg))))
                  else None)
           \<and> map_of (header f) ''EV_ALPHA''
               = (if evo cfg then Some (Float (evo_alpha cfg)) else None)))"
proof (intro conjI impI)
  assume "(rebinning (config s) \<longrightarrow> scale_factor s = Some sf)
      \<and> (dimming (config s) \<longrightarrow> dimming_factor s = Some df)
      \<and> (evo (config s) \<longrightarrow> evo_factor s = Some ef)
      \<and> (overwrite \<or> \<not> present filepath)"
  then show "\<exists>f. writeto present s filepath data overwrite = Inr f
           \<and> path f = filepath \<and> payload f = data
           \<and> map_of (header f) ''REBIN'' = (if rebinning (config s) then Some (Float sf) else None)
           \<and> map_of (header f) ''DIM_FACT'' = (if dimming (config s) then Some (Float df) else None)
           \<and> map_of (header f) ''EVO_FACT'' = (if evo (config s) then Some (Float ef) else None)
           \<and> map_of (header f) ''EV_ALPHA''
               = (if evo (config s) then Some (Float (evo_alpha (config s))) else None)"
    using writeto_header [where present = present and filepath = filepath and st = s
                            and sf = sf and df = df and ef = ef and overwrite = overwrite
                            and data = data]
    by blast
next
  assume "ArtificialRedshift_init ext img psf0 bg initial target mag pos cfg_opt = Inr st
      \<and> cfg = (case cfg_opt of None \<Rightarrow> default_Config ext | Some c \<Rightarrow> c)
      \<and> (overwrite \<or> \<not> present filepath)"
  then show "\<exists>f. writeto present st filepath data overwrite = Inr f
           \<and> path f = filepath \<and> payload f = data
           \<and> map_of (header f) ''REBIN''
               = (if rebinning cfg
                  then Some (Float (cosmo cfg (redshift initial) * (1 + redshift target)\<^sup>2
                                      * pixelscale initial
                                    / (cosmo cfg (redshift target) * (1 + redshift initial)\<^sup>2
                                       * pixelscale target)))
                  else None)
           \<and> map_of (header f) ''DIM_FACT''
               = (if dimming cfg
                  then Some (Float ((cosmo cfg (redshift initial)
                                     / cosmo cfg (redshift target))\<^sup>2))
                  else None)
           \<and> map_of (header f) ''EVO_FACT''
               = (if evo cfg
                  then Some (Float (10 powr (- 0.4 * (mag - mag * (1 + redshift target)
                                                                  powr evo_alpha cfg))))
                  else None)
           \<and> map_of (header f) ''EV_ALPHA''
               = (if evo cfg then Some (Float (evo_alpha cfg)) else None)"
    using writeto_header_after_run
            [where present = present and filepath = filepath and ext = ext and img = img
               and ?psf0.0 = psf0 and bg = bg and initial = initial and target = target
               and mag = mag and pos = pos and cfg_opt = cfg_opt and st = st and cfg = cfg
               and overwrite = overwrite and data = data]
    by blast
qed

theorem writeto_header_matches_factors_witness:
  "\<exists>st f. ArtificialRedshift_init stand_in (NDArray 2 [[1, 2], [3, 4]]) (full (3, 3) 1) None
              (frame_at 1) (frame_at 1) (- 20) None
              (Some (all_disabled\<lparr>rebinning := True, dimming := True, evo := True,
                                   fixed_grid := True\<rparr>)) = Inr st
          \<and> writeto (\<lambda>p. False) st ''out.fits'' (final_crop st) False = Inr f
          \<and> map_of (header f) ''REBIN'' = Some (Float 1)
          \<and> map_of (header f) ''DIM_FACT'' = Some (Float 1)
          \<and> map_of (header f) ''EVO_FACT''
              = Some (Float (10 powr (- 0.4 * (- 20 + 20 * 2 powr (- 0.13)))))
          \<and> map_of (header f) ''EV_ALPHA'' = Some (Float (- 0.13))"
proof -
  let ?img = "NDArray 2 [[1, 2], [3, 4 :: real]]"
  let ?cfg = "all_disabled\<lparr>rebinning := True, dimming := True, evo := True, fixed_grid := True\<rparr>"
  let ?st0 = "initial_state ?img (full (3, 3) 1) None (frame_at 1) (frame_at 1) (- 20) None ?cfg"
  let ?n = "map_array (\<lambda>v. v / array_sum (final ?st0)) (final ?st0)"
  have fin: "final ?st0 = ?img" "config ?st0 = ?cfg" "target_frame ?st0 = frame_at 1"
    "initial_frame ?st0 = frame_at 1"
    by (simp_all add: initial_state_def)
  have cfg: "rebinning ?cfg" "dimming ?cfg" "evo ?cfg" "fixed_grid ?cfg" "\<not> size_correction ?cfg"
    "\<not> make_cutout ?cfg" "\<not> convolve_with_psf ?cfg" "\<not> shot_noise ?cfg"
    "\<not> add_background_on ?cfg" "evo_alpha ?cfg = - 0.13"
    "cosmo ?cfg = hubble_distance 70 (3 / 10) (109 / 40)"
    by (simp_all add: all_disabled_def default_Config_def stand_in_def)
  have total: "array_sum (final ?st0) = 10" by (simp add: fin array_sum_def)
  have h1: "array_sum (final ?st0) \<noteq> 0" by (simp add: total)
  have h2: "(if rebinning (config ?st0) then rebinning_scale ?st0 else Inr 1) = Inr 1"
    using hubble_one
    by (simp add: fin cfg rebinning_scale_def float_div_def Let_def frame_at_sel)
  have h3: "(if size_correction (config ?st0)
             then size_correction_of (redshift (target_frame ?st0)) else Inr 1) = Inr 1"
    by (simp add: fin cfg)
  have z: "zoom_contents ?n 1 False 0 = Inr ?n"
    by (rule zoom_contents_scale_one)
       (simp_all add: fin well_shaped_def shape0_def shape1_def map_array_def)
  have h4: "(if fixed_grid (config ?st0) then zoom_contents ?n (1 * 1) False 0
             else zoom stand_in ?n (1 * 1)) = Inr ?n"
    using z by (simp add: fin cfg)
  have h5: "array_sum ?n \<noteq> 0"
    by (simp add: array_sum_divide total)
  obtain st2 where g: "geometric_rebinning stand_in ?st0 = Inr st2"
    using geometric_rebinning_returns [OF h1 h2 h3 h4 h5] by blast
  have "\<exists>st. run_stages stand_in ?st0 = Inr st"
    by (rule run_stages_returns [OF _ _ _ _ g])
       (use hubble_one in \<open>simp_all add: fin cfg frame_at_sel\<close>)
  then obtain st where run: "ArtificialRedshift_init stand_in ?img (full (3, 3) 1) None
              (frame_at 1) (frame_at 1) (- 20) None (Some ?cfg) = Inr st"
    by (auto simp add: ArtificialRedshift_init_def)
  have covered:
    "ArtificialRedshift_init stand_in ?img (full (3, 3) 1) None (frame_at 1) (frame_at 1)
       (- 20) None (Some ?cfg) = Inr st
     \<and> ?cfg = (case Some ?cfg of None \<Rightarrow> default_Config stand_in | Some c \<Rightarrow> c)
     \<and> (False \<or> \<not> (\<lambda>p. False) ''out.fits'')"
    using run by simp
  obtain f where w: "writeto (\<lambda>p. False) st ''out.fits'' (final_crop st) False = Inr f"
    and k: "map_of (header f) ''REBIN''
               = (if rebinning ?cfg
                  then Some (Float (cosmo ?cfg (redshift (frame_at 1)) * (1 + redshift (frame_at 1))\<^sup>2
                                      * pixelscale (frame_at 1)
                                    / (cosmo ?cfg (redshift (frame_at 1)) * (1 + redshift (frame_at 1))\<^sup>2
                                       * pixelscale (frame_at 1))))
                  else None)"
      "map_of (header f) ''DIM_FACT''
               = (if dimming ?cfg
                  then Some (Float ((cosmo ?cfg (redshift (frame_at 1))
                                     / cosmo ?cfg (redshift (frame_at 1)))\<^sup>2))
                  else None)"
      "map_of (header f) ''EVO_FACT''
               = (if evo ?cfg
                  then Some (Float (10 powr (- 0.4 * (- 20 - (- 20) * (1 + redshift (frame_at 1))
                                                                  powr evo_alpha ?cfg))))
                  else None)"
      "map_of (header f) ''EV_ALPHA''
               = (if evo ?cfg then Some (Float (evo_alpha ?cfg)) else None)"
    using writeto_header_matches_factors
        [where present = "\<lambda>p. False" and filepath = "''out.fits''" and st = st
           and cfg = ?cfg and cfg_opt = "Some ?cfg" and data = "final_crop st"
           and overwrite = False and ext = stand_in and img = ?img
           and ?psf0.0 = "full (3, 3) 1" and bg = None and initial = "frame_at 1"
           and target = "frame_at 1" and mag = "- 20" and pos = None,
         THEN conjunct2, THEN mp, OF covered]
    by blast
  have "map_of (header f) ''REBIN'' = Some (Float 1)"
    using k(1) hubble_one by (simp add: cfg frame_at_sel)
  moreover have "map_of (header f) ''DIM_FACT'' = Some (Float 1)"
    using k(2) hubble_one by (simp add: cfg frame_at_sel)
  moreover have "map_of (header f) ''EVO_FACT''
              = Some (Float (10 powr (- 0.4 * (- 20 + 20 * 2 powr (- 0.13)))))"
    using k(3) by (simp add: cfg frame_at_sel)
  moreover have "map_of (header f) ''EV_ALPHA'' = Some (Float (- 0.13))"
    using k(4) by (simp add: cfg)
  ultimately show ?thesis using run w by blast
qed


text \<open>
  C4 as stated fails for \<open>REBIN\<close>: the header holds \<^verbatim>\<open>self.scale_factor\<close>, the geometric
  factor alone. With source and target frames alike at redshift 1 and the size
  correction enabled, the geometric factor is 1 and the size correction is
  \<open>2 powr (- 0.97)\<close>; the image is resampled with their product, and \<open>REBIN\<close> is 1.
\<close>

theorem header_rebin_without_size_correction_counterexample:
  "\<exists>st f. ArtificialRedshift_init stand_in (NDArray 3 [[1, 1, 1], [1, 2, 1], [1, 1, 1]])
              (full (3, 3) 1) None (frame_at 1) (frame_at 1) (- 20) None
              (Some (all_disabled\<lparr>rebinning := True, dimming := True, evo := True,
                                   size_correction := True, fixed_grid := True\<rparr>)) = Inr st
          \<and> writeto (\<lambda>p. False) st ''out.fits'' (final_crop st) False = Inr f
          \<and> scale_factor st = Some 1
          \<and> size_correction_factor st = Some (2 powr (- 0.97))
          \<and> map_of (header f) ''REBIN'' = Some (Float 1)
          \<and> (1::real) * 2 powr (- 0.97) \<noteq> 1"
proof -
  let ?img = "NDArray 3 [[1, 1, 1], [1, 2, 1], [1, 1, 1 :: real]]"
  let ?cfg = "all_disabled\<lparr>rebinning := True, dimming := True, evo := True,
                            size_correction := True, fixed_grid := True\<rparr>"
  let ?st0 = "initial_state ?img (full (3, 3) 1) None (frame_at 1) (frame_at 1) (- 20) None ?cfg"
  let ?n = "map_array (\<lambda>v. v / array_sum (final ?st0)) (final ?st0)"
  let ?s = "(2::real) powr (- 0.97)"
  let ?r = "NDArray 3 [[0, 0, 0], [0, rows ?n ! 1 ! 1, 0], [0, 0, 0]]"
  have fin: "final ?st0 = ?img" "config ?st0 = ?cfg" "target_frame ?st0 = frame_at 1"
    "initial_frame ?st0 = frame_at 1"
    by (simp_all add: initial_state_def)
  have cfg: "rebinning ?cfg" "dimming ?cfg" "evo ?cfg" "fixed_grid ?cfg" "size_correction ?cfg"
    "\<not> make_cutout ?cfg" "\<not> convolve_with_psf ?cfg" "\<not> shot_noise ?cfg"
    "\<not> add_background_on ?cfg"
    "cosmo ?cfg = hubble_distance 70 (3 / 10) (109 / 40)"
    by (simp_all add: all_disabled_def default_Config_def stand_in_def)
  have sc: "size_correction_of 1 = Inr ?s" "0 < ?s" "?s < 1"
    using size_correction_of_one_bounds by simp_all
  have total: "array_sum (final ?st0) = 10" by (simp add: fin array_sum_def)
  have h1: "array_sum (final ?st0) \<noteq> 0" by (simp add: total)
  have rs: "rebinning_scale ?st0 = Inr 1"
    using hubble_one
    by (simp add: fin cfg rebinning_scale_def float_div_def Let_def frame_at_sel)
  have h2: "(if rebinning (config ?st0) then rebinning_scale ?st0 else Inr 1) = Inr 1"
    using rs by (simp add: fin cfg)
  have h3: "(if size_correction (config ?st0)
             then size_correction_of (redshift (target_frame ?st0)) else Inr 1) = Inr ?s"
    using sc(1) by (simp add: fin cfg frame_at_sel)
  have z: "zoom_contents ?n (1 * ?s) False 0 = Inr ?r"
    using zoom_contents_three_by_three_shrunk [OF sc(2,3), of ?n 0]
    by (simp add: fin shape0_def shape1_def map_array_def)
  have h4: "(if fixed_grid (config ?st0) then zoom_contents ?n (1 * ?s) False 0
             else zoom stand_in ?n (1 * ?s)) = Inr ?r"
    using z by (simp add: fin cfg)
  have h5: "array_sum ?r \<noteq> 0"
    by (simp add: array_sum_def fin map_array_def)
  obtain st2 where g: "geometric_rebinning stand_in ?st0 = Inr st2"
    using geometric_rebinning_returns [OF h1 h2 h3 h4 h5] by blast
  have "\<exists>st. run_stages stand_in ?st0 = Inr st"
    by (rule run_stages_returns [OF _ _ _ _ g])
       (use hubble_one in \<open>simp_all add: fin cfg frame_at_sel\<close>)
  then obtain st where r: "run_stages stand_in ?st0 = Inr st" by blast
  have run: "ArtificialRedshift_init stand_in ?img (full (3, 3) 1) None
              (frame_at 1) (frame_at 1) (- 20) None (Some ?cfg) = Inr st"
    using r by (simp add: ArtificialRedshift_init_def)
  note f = run_stages_fields [OF r]
  have c: "config st = ?cfg" using f provenance_eqD(1) [of st ?st0] fin by simp
  have sf: "scale_factor st = Some 1"
    using f rs by (auto simp add: fin cfg)
  have scf: "size_correction_factor st = Some ?s"
    using f sc(1) by (auto simp add: fin cfg frame_at_sel)
  have a: "rebinning (config st) \<longrightarrow> scale_factor st = Some 1" using sf by simp
  have b: "dimming (config st) \<longrightarrow> dimming_factor st = Some (the (dimming_factor st))"
    using f by (auto simp add: fin cfg)
  have e: "evo (config st) \<longrightarrow> evo_factor st = Some (the (evo_factor st))"
    using f by (auto simp add: fin cfg)
  have free: "False \<or> \<not> (\<lambda>p. False) ''out.fits''" by simp
  obtain fl where w: "writeto (\<lambda>p. False) st ''out.fits'' (final_crop st) False = Inr fl"
    and k: "map_of (header fl) ''REBIN'' = (if rebinning (config st) then Some (Float 1) else None)"
    using writeto_header
            [where present = "\<lambda>p. False" and filepath = "''out.fits''", OF a b e free,
             of "final_crop st"]
    by auto
  have "map_of (header fl) ''REBIN'' = Some (Float 1)"
    using k by (simp add: c cfg)
  moreover have "(1::real) * ?s \<noteq> 1" using sc(3) by simp
  ultimately show ?thesis using run w sf scf by blast
qed

end
